theory Spec2Isabelle
  imports Main "HOL-Library.Word"
begin

section \<open>Values, exceptions and the Python library\<close>

text \<open>
  The server of \<^verbatim>\<open>mcp_server.py\<close> handles untyped data: the argument mapping of a tool
  call and the decoded JSON bodies of the tracker. Both are Python objects built from
  \<^verbatim>\<open>None\<close>, booleans, integers, floats, strings, lists and dicts. A float is kept as its
  64 bits; the server only ever tests it for truth. A dict is an association list in
  insertion order, read with \<open>map_of\<close>.
\<close>

datatype json =
    JNull
  | JBool bool
  | JInt int
  | JFloat "64 word"
  | JStr string
  | JArr "json list"
  | JObj "(string \<times> json) list"

text \<open>
  Every exception the code can meet is a subclass of \<^verbatim>\<open>Exception\<close>: the \<^verbatim>\<open>ValueError\<close>
  raised by the request primitive, the \<^verbatim>\<open>KeyError\<close> of a missing dict key, the
  \<^verbatim>\<open>TypeError\<close> and \<^verbatim>\<open>AttributeError\<close> of an operation on a value of the wrong type
  (with the interpreter's message), and whatever the HTTP transport raises for a request
  (\<^verbatim>\<open>aiohttp.ClientError\<close> for a connection failure or an unsuccessful status, a timeout,
  an undecodable body), kept with its message.
\<close>

datatype exc =
    ValueError string
  | KeyError string
  | TypeError string
  | AttributeError string
  | OtherError string

text \<open>
  Functions of the Python library that the server calls and that are not part of the
  repository. They are parameters of the model; every theorem holds for all of them.
\<close>

record pylib =
  str_lower :: "string \<Rightarrow> string"
  json_dumps :: "json \<Rightarrow> string"
  py_repr :: "json \<Rightarrow> string"
  urljoin :: "string \<Rightarrow> string \<Rightarrow> string"
  b64encode :: "string \<Rightarrow> string"

text \<open>
  \<open>str_lower\<close> is \<^verbatim>\<open>str.lower\<close>, \<open>json_dumps\<close> is \<^verbatim>\<open>json.dumps(v, indent=2)\<close>, \<open>py_repr\<close> is
  \<^verbatim>\<open>repr\<close>, \<open>urljoin\<close> is \<^verbatim>\<open>urllib.parse.urljoin\<close> and \<open>b64encode\<close> is
  \<^verbatim>\<open>base64.b64encode\<close> on ASCII text.
\<close>

fun type_name :: "json \<Rightarrow> string" where
  "type_name JNull = ''NoneType''"
| "type_name (JBool b) = ''bool''"
| "type_name (JInt i) = ''int''"
| "type_name (JFloat w) = ''float''"
| "type_name (JStr s) = ''str''"
| "type_name (JArr xs) = ''list''"
| "type_name (JObj d) = ''dict''"

text \<open>Truth value of an object, as \<^verbatim>\<open>if v\<close> and \<^verbatim>\<open>not v\<close> test it.\<close>

fun truthy :: "json \<Rightarrow> bool" where
  "truthy JNull = False"
| "truthy (JBool b) = b"
| "truthy (JInt i) = (i \<noteq> 0)"
| "truthy (JFloat w) = (w \<noteq> 0 \<and> w \<noteq> 0x8000000000000000)"
| "truthy (JStr s) = (s \<noteq> [])"
| "truthy (JArr xs) = (xs \<noteq> [])"
| "truthy (JObj d) = (d \<noteq> [])"

text \<open>\<^verbatim>\<open>str(e)\<close> of an exception; for a \<^verbatim>\<open>KeyError\<close> it is the \<^verbatim>\<open>repr\<close> of the key.\<close>

fun str_exc :: "pylib \<Rightarrow> exc \<Rightarrow> string" where
  "str_exc lib (ValueError m) = m"
| "str_exc lib (KeyError k) = py_repr lib (JStr k)"
| "str_exc lib (TypeError m) = m"
| "str_exc lib (AttributeError m) = m"
| "str_exc lib (OtherError m) = m"

text \<open>A value inside an f-string: a \<^verbatim>\<open>str\<close> is inserted as it is, anything else by \<^verbatim>\<open>str()\<close>,
  which for the other JSON types is \<^verbatim>\<open>repr\<close>.\<close>

fun fstr :: "pylib \<Rightarrow> json \<Rightarrow> string" where
  "fstr lib (JStr s) = s"
| "fstr lib v = py_repr lib v"

definition quoted :: "string \<Rightarrow> string" where
  "quoted s = [CHR 0x27] @ s @ [CHR 0x27]"

text \<open>\<^verbatim>\<open>d[k]\<close> on a dict.\<close>

definition getitem :: "(string \<times> json) list \<Rightarrow> string \<Rightarrow> exc + json" where
  "getitem d k = (case map_of d k of None \<Rightarrow> Inl (KeyError k) | Some v \<Rightarrow> Inr v)"

text \<open>\<^verbatim>\<open>d[k] = v\<close> on a dict: an existing key keeps its place, a new one goes last.\<close>

fun setitem :: "(string \<times> json) list \<Rightarrow> string \<Rightarrow> json \<Rightarrow> (string \<times> json) list" where
  "setitem [] k v = [(k, v)]"
| "setitem ((k', v') # d) k v = (if k' = k then (k, v) # d else (k', v') # setitem d k v)"

text \<open>\<^verbatim>\<open>v[k]\<close> with a string key on any object.\<close>

fun subscript :: "json \<Rightarrow> string \<Rightarrow> exc + json" where
  "subscript (JObj d) k = getitem d k"
| "subscript (JArr xs) k = Inl (TypeError ''list indices must be integers or slices, not str'')"
| "subscript (JStr s) k = Inl (TypeError (''string indices must be integers, not '' @ quoted ''str''))"
| "subscript v k = Inl (TypeError (quoted (type_name v) @ '' object is not subscriptable''))"

text \<open>\<^verbatim>\<open>v.get(k, default)\<close> on any object.\<close>

fun get_default :: "json \<Rightarrow> string \<Rightarrow> json \<Rightarrow> exc + json" where
  "get_default (JObj d) k dflt = Inr (case map_of d k of None \<Rightarrow> dflt | Some v \<Rightarrow> v)"
| "get_default v k dflt =
     Inl (AttributeError (quoted (type_name v) @ '' object has no attribute '' @ quoted ''get''))"

text \<open>\<^verbatim>\<open>v.lower()\<close> on any object.\<close>

fun lower :: "pylib \<Rightarrow> json \<Rightarrow> exc + string" where
  "lower lib (JStr s) = Inr (str_lower lib s)"
| "lower lib v =
     Inl (AttributeError (quoted (type_name v) @ '' object has no attribute '' @ quoted ''lower''))"

text \<open>The elements that \<^verbatim>\<open>for x in v\<close> visits: the items of a list, the keys of a dict,
  the characters of a string.\<close>

fun iterate :: "json \<Rightarrow> exc + json list" where
  "iterate (JArr xs) = Inr xs"
| "iterate (JObj d) = Inr (map (\<lambda>kv. JStr (fst kv)) d)"
| "iterate (JStr s) = Inr (map (\<lambda>c. JStr [c]) s)"
| "iterate v = Inl (TypeError (quoted (type_name v) @ '' object is not iterable''))"

text \<open>\<^verbatim>\<open>sep.join(v)\<close>: every element that \<open>v\<close> yields must be a \<^verbatim>\<open>str\<close>.\<close>

fun str_items :: "pylib \<Rightarrow> nat \<Rightarrow> json list \<Rightarrow> exc + string list" where
  "str_items lib i [] = Inr []"
| "str_items lib i (v # vs) =
     (case v of
        JStr s \<Rightarrow> (case str_items lib (Suc i) vs of Inl e \<Rightarrow> Inl e | Inr ss \<Rightarrow> Inr (s # ss))
      | _ \<Rightarrow> Inl (TypeError (''sequence item '' @ py_repr lib (JInt (int i)) @
                 '': expected str instance, '' @ type_name v @ '' found'')))"

fun join_with :: "string \<Rightarrow> string list \<Rightarrow> string" where
  "join_with sep [] = []"
| "join_with sep [s] = s"
| "join_with sep (s # t # ss) = s @ sep @ join_with sep (t # ss)"

definition str_join :: "pylib \<Rightarrow> string \<Rightarrow> json \<Rightarrow> exc + string" where
  "str_join lib sep v =
     (case iterate v of
        Inl e \<Rightarrow> Inl (TypeError ''can only join an iterable'')
      | Inr vs \<Rightarrow> (case str_items lib 0 vs of Inl e \<Rightarrow> Inl e | Inr ss \<Rightarrow> Inr (join_with sep ss)))"

section \<open>The tracker client (class JIRAMCPServer)\<close>

record JIRAConfig =
  base_url :: string
  username :: string
  api_token :: string
  default_project_key :: string

text \<open>The \<^verbatim>\<open>aiohttp.ClientSession\<close>: its default headers and its total timeout.\<close>

record ClientSession =
  headers :: "(string \<times> string) list"
  timeout_total :: nat

record JIRAMCPServer =
  config :: "JIRAConfig option"
  session :: "ClientSession option"

text \<open>\<^verbatim>\<open>__init__\<close>: neither configuration nor session.\<close>

definition init :: JIRAMCPServer where
  "init = \<lparr>config = None, session = None\<rparr>"

text \<open>\<^verbatim>\<open>initialize\<close>: \<^verbatim>\<open>encode('ascii')\<close> raises on a character outside ASCII.\<close>

definition initialize :: "pylib \<Rightarrow> JIRAMCPServer \<Rightarrow> JIRAConfig \<Rightarrow> exc + JIRAMCPServer" where
  "initialize lib self cfg =
     (let auth_string = username cfg @ '':'' @ api_token cfg in
      if \<exists>ch \<in> set auth_string. 128 \<le> (of_char ch :: nat)
      then Inl (OtherError ''UnicodeEncodeError'')
      else Inr (self\<lparr>config := Some cfg,
                     session := Some \<lparr>headers =
                        [(''Authorization'', ''Basic '' @ b64encode lib auth_string),
                         (''Content-Type'', ''application/json''),
                         (''Accept'', ''application/json'')],
                       timeout_total = 30\<rparr>\<rparr>))"

text \<open>
  One HTTP request as \<^verbatim>\<open>session.request(method, url, **kwargs)\<close> receives it; the keyword
  arguments the client uses are \<^verbatim>\<open>params\<close> and \<^verbatim>\<open>json\<close>.
\<close>

record request =
  rq_method :: string
  rq_url :: string
  rq_params :: "json option"
  rq_json :: "json option"

text \<open>
  The network is the remote tracker seen through the session: given the requests issued
  so far and the next request, either the decoded JSON body of a successful response or
  the exception that \<^verbatim>\<open>session.request\<close>, \<^verbatim>\<open>raise_for_status\<close> or \<^verbatim>\<open>response.json\<close> raises.
  A computation of the client takes the log of requests issued so far and returns its
  result or exception together with the extended log.
\<close>

type_synonym network = "request list \<Rightarrow> request \<Rightarrow> exc + json"

type_synonym 'a io = "request list \<Rightarrow> (exc + 'a) \<times> request list"

text \<open>\<^verbatim>\<open>_make_request\<close>. The \<^verbatim>\<open>except aiohttp.ClientError\<close> clause logs and re-raises.\<close>

definition make_request ::
  "pylib \<Rightarrow> network \<Rightarrow> JIRAMCPServer \<Rightarrow> string \<Rightarrow> string \<Rightarrow> json option \<Rightarrow> json option \<Rightarrow> json io" where
  "make_request lib net self method endpoint params body log =
     (case (session self, config self) of
        (Some s, Some cfg) \<Rightarrow>
          (let rq = \<lparr>rq_method = method,
                     rq_url = urljoin lib (base_url cfg) (''/rest/api/3/'' @ endpoint),
                     rq_params = params, rq_json = body\<rparr>
           in (net log rq, log @ [rq]))
      | _ \<Rightarrow> (Inl (ValueError ''JIRA client not initialized''), log))"

definition get_projects :: "pylib \<Rightarrow> network \<Rightarrow> JIRAMCPServer \<Rightarrow> json io" where
  "get_projects lib net self = make_request lib net self ''GET'' ''project'' None None"

definition get_project_details :: "pylib \<Rightarrow> network \<Rightarrow> JIRAMCPServer \<Rightarrow> json \<Rightarrow> json io" where
  "get_project_details lib net self project_key =
     make_request lib net self ''GET'' (''project/'' @ fstr lib project_key) None None"

definition search_issues ::
  "pylib \<Rightarrow> network \<Rightarrow> JIRAMCPServer \<Rightarrow> json \<Rightarrow> json \<Rightarrow> json \<Rightarrow> json io" where
  "search_issues lib net self jql fields' max_results log =
     (case (if truthy fields' then str_join lib '','' fields' else Inr ''*all'') of
        Inl e \<Rightarrow> (Inl e, log)
      | Inr fs \<Rightarrow>
          make_request lib net self ''GET'' ''search''
            (Some (JObj [(''jql'', jql), (''maxResults'', max_results), (''fields'', JStr fs)]))
            None log)"

definition get_issue :: "pylib \<Rightarrow> network \<Rightarrow> JIRAMCPServer \<Rightarrow> json \<Rightarrow> json io" where
  "get_issue lib net self issue_key =
     make_request lib net self ''GET'' (''issue/'' @ fstr lib issue_key) None None"

definition create_issue :: "pylib \<Rightarrow> network \<Rightarrow> JIRAMCPServer \<Rightarrow> json \<Rightarrow> json io" where
  "create_issue lib net self issue_data =
     make_request lib net self ''POST'' ''issue'' None (Some issue_data)"

text \<open>The operations declared \<^verbatim>\<open>-> None\<close> drop the response body.\<close>

definition update_issue :: "pylib \<Rightarrow> network \<Rightarrow> JIRAMCPServer \<Rightarrow> json \<Rightarrow> json \<Rightarrow> unit io" where
  "update_issue lib net self issue_key update_data log =
     (case make_request lib net self ''PUT'' (''issue/'' @ fstr lib issue_key) None
             (Some update_data) log of
        (Inl e, log') \<Rightarrow> (Inl e, log')
      | (Inr r, log') \<Rightarrow> (Inr (), log'))"

definition transition_issue :: "pylib \<Rightarrow> network \<Rightarrow> JIRAMCPServer \<Rightarrow> json \<Rightarrow> json \<Rightarrow> unit io" where
  "transition_issue lib net self issue_key transition_id log =
     (let transition_data = JObj [(''transition'', JObj [(''id'', transition_id)])] in
      case make_request lib net self ''POST'' (''issue/'' @ fstr lib issue_key @ ''/transitions'')
             None (Some transition_data) log of
        (Inl e, log') \<Rightarrow> (Inl e, log')
      | (Inr r, log') \<Rightarrow> (Inr (), log'))"

definition get_issue_transitions :: "pylib \<Rightarrow> network \<Rightarrow> JIRAMCPServer \<Rightarrow> json \<Rightarrow> json io" where
  "get_issue_transitions lib net self issue_key log =
     (case make_request lib net self ''GET'' (''issue/'' @ fstr lib issue_key @ ''/transitions'')
             None None log of
        (Inl e, log') \<Rightarrow> (Inl e, log')
      | (Inr result, log') \<Rightarrow> (get_default result ''transitions'' (JArr []), log'))"

definition add_comment :: "pylib \<Rightarrow> network \<Rightarrow> JIRAMCPServer \<Rightarrow> json \<Rightarrow> json \<Rightarrow> json io" where
  "add_comment lib net self issue_key comment =
     (let comment_data =
        JObj [(''body'',
          JObj [(''type'', JStr ''doc''),
                (''version'', JInt 1),
                (''content'',
                  JArr [JObj [(''type'', JStr ''paragraph''),
                              (''content'',
                                JArr [JObj [(''text'', comment),
                                            (''type'', JStr ''text'')]])]])])]
      in make_request lib net self ''POST'' (''issue/'' @ fstr lib issue_key @ ''/comment'')
           None (Some comment_data))"

definition get_issue_types :: "pylib \<Rightarrow> network \<Rightarrow> JIRAMCPServer \<Rightarrow> json \<Rightarrow> json io" where
  "get_issue_types lib net self project_key log =
     (case get_project_details lib net self project_key log of
        (Inl e, log') \<Rightarrow> (Inl e, log')
      | (Inr project, log') \<Rightarrow> (get_default project ''issueTypes'' (JArr []), log'))"

definition get_epics :: "pylib \<Rightarrow> network \<Rightarrow> JIRAMCPServer \<Rightarrow> json \<Rightarrow> json io" where
  "get_epics lib net self project_key log =
     (let jql = ''project = \"'' @ fstr lib project_key @
                ''\" AND issuetype = Epic ORDER BY created DESC''
      in case search_issues lib net self (JStr jql) JNull (JInt 50) log of
        (Inl e, log') \<Rightarrow> (Inl e, log')
      | (Inr result, log') \<Rightarrow> (get_default result ''issues'' (JArr []), log'))"

definition link_issue_to_epic :: "pylib \<Rightarrow> network \<Rightarrow> JIRAMCPServer \<Rightarrow> json \<Rightarrow> json \<Rightarrow> unit io" where
  "link_issue_to_epic lib net self issue_key epic_key =
     (let update_data = JObj [(''fields'', JObj [(''parent'', JObj [(''key'', epic_key)])])]
      in update_issue lib net self issue_key update_data)"

section \<open>The tool catalog (handle_list_tools)\<close>

record Tool =
  tool_name :: string
  description :: string
  inputSchema :: json

definition handle_list_tools :: "Tool list" where
  "handle_list_tools = [
     \<lparr>tool_name = ''jira_get_projects'',
      description = ''Get all accessible JIRA projects'',
      inputSchema = JObj [
        (''type'', JStr ''object''),
        (''properties'', JObj []),
        (''required'', JArr [])]\<rparr>,
     \<lparr>tool_name = ''jira_get_project_details'',
      description = ''Get detailed information about a specific JIRA project'',
      inputSchema = JObj [
        (''type'', JStr ''object''),
        (''properties'', JObj [
          (''project_key'', JObj [
            (''type'', JStr ''string''),
            (''description'', JStr ''The project key (e.g., 'PROJ')'')])]),
        (''required'', JArr [JStr ''project_key''])]\<rparr>,
     \<lparr>tool_name = ''jira_search_issues'',
      description = ''Search for issues using JQL (JIRA Query Language)'',
      inputSchema = JObj [
        (''type'', JStr ''object''),
        (''properties'', JObj [
          (''jql'', JObj [
            (''type'', JStr ''string''),
            (''description'',
              JStr ''JQL query string (e.g., 'project = PROJ AND status = \"In Progress\"')'')]),
          (''fields'', JObj [
            (''type'', JStr ''array''),
            (''items'', JObj [(''type'', JStr ''string'')]),
            (''description'', JStr ''List of fields to return (optional)'')]),
          (''max_results'', JObj [
            (''type'', JStr ''integer''),
            (''description'', JStr ''Maximum number of results to return (default: 50)''),
            (''default'', JInt 50)])]),
        (''required'', JArr [JStr ''jql''])]\<rparr>,
     \<lparr>tool_name = ''jira_get_issue'',
      description = ''Get detailed information about a specific issue'',
      inputSchema = JObj [
        (''type'', JStr ''object''),
        (''properties'', JObj [
          (''issue_key'', JObj [
            (''type'', JStr ''string''),
            (''description'', JStr ''The issue key (e.g., 'PROJ-123')'')])]),
        (''required'', JArr [JStr ''issue_key''])]\<rparr>,
     \<lparr>tool_name = ''jira_create_issue'',
      description = ''Create a new JIRA issue (story, task, bug, epic, etc.)'',
      inputSchema = JObj [
        (''type'', JStr ''object''),
        (''properties'', JObj [
          (''project_key'', JObj [
            (''type'', JStr ''string''),
            (''description'', JStr ''The project key where to create the issue'')]),
          (''issue_type'', JObj [
            (''type'', JStr ''string''),
            (''description'', JStr ''Issue type (Story, Task, Bug, Epic, Sub-task, etc.)'')]),
          (''summary'', JObj [
            (''type'', JStr ''string''),
            (''description'', JStr ''Issue title/summary'')]),
          (''description'', JObj [
            (''type'', JStr ''string''),
            (''description'', JStr ''Detailed description of the issue (optional)'')]),
          (''assignee'', JObj [
            (''type'', JStr ''string''),
            (''description'', JStr ''Assignee username (optional)'')]),
          (''priority'', JObj [
            (''type'', JStr ''string''),
            (''description'', JStr ''Priority (Highest, High, Medium, Low, Lowest) - optional'')]),
          (''labels'', JObj [
            (''type'', JStr ''array''),
            (''items'', JObj [(''type'', JStr ''string'')]),
            (''description'', JStr ''List of labels (optional)'')]),
          (''parent_key'', JObj [
            (''type'', JStr ''string''),
            (''description'', JStr ''Parent issue key (for sub-tasks or linking to epics)'')])]),
        (''required'', JArr [JStr ''project_key'', JStr ''issue_type'', JStr ''summary''])]\<rparr>,
     \<lparr>tool_name = ''jira_update_issue'',
      description = ''Update an existing JIRA issue'',
      inputSchema = JObj [
        (''type'', JStr ''object''),
        (''properties'', JObj [
          (''issue_key'', JObj [
            (''type'', JStr ''string''),
            (''description'', JStr ''The issue key to update'')]),
          (''summary'', JObj [
            (''type'', JStr ''string''),
            (''description'', JStr ''New summary/title (optional)'')]),
          (''description'', JObj [
            (''type'', JStr ''string''),
            (''description'', JStr ''New description (optional)'')]),
          (''assignee'', JObj [
            (''type'', JStr ''string''),
            (''description'', JStr ''New assignee username (optional)'')]),
          (''priority'', JObj [
            (''type'', JStr ''string''),
            (''description'', JStr ''New priority (optional)'')]),
          (''labels'', JObj [
            (''type'', JStr ''array''),
            (''items'', JObj [(''type'', JStr ''string'')]),
            (''description'', JStr ''New labels list (optional)'')])]),
        (''required'', JArr [JStr ''issue_key''])]\<rparr>,
     \<lparr>tool_name = ''jira_transition_issue'',
      description = ''Change the status of an issue (e.g., move from To Do to In Progress)'',
      inputSchema = JObj [
        (''type'', JStr ''object''),
        (''properties'', JObj [
          (''issue_key'', JObj [
            (''type'', JStr ''string''),
            (''description'', JStr ''The issue key to transition'')]),
          (''transition_name'', JObj [
            (''type'', JStr ''string''),
            (''description'',
              JStr ''Name of the transition (e.g., 'Start Progress', 'Done', 'Close Issue')'')])]),
        (''required'', JArr [JStr ''issue_key'', JStr ''transition_name''])]\<rparr>,
     \<lparr>tool_name = ''jira_get_available_transitions'',
      description = ''Get all available status transitions for an issue'',
      inputSchema = JObj [
        (''type'', JStr ''object''),
        (''properties'', JObj [
          (''issue_key'', JObj [
            (''type'', JStr ''string''),
            (''description'', JStr ''The issue key'')])]),
        (''required'', JArr [JStr ''issue_key''])]\<rparr>,
     \<lparr>tool_name = ''jira_add_comment'',
      description = ''Add a comment to a JIRA issue'',
      inputSchema = JObj [
        (''type'', JStr ''object''),
        (''properties'', JObj [
          (''issue_key'', JObj [
            (''type'', JStr ''string''),
            (''description'', JStr ''The issue key'')]),
          (''comment'', JObj [
            (''type'', JStr ''string''),
            (''description'', JStr ''The comment text'')])]),
        (''required'', JArr [JStr ''issue_key'', JStr ''comment''])]\<rparr>,
     \<lparr>tool_name = ''jira_get_epics'',
      description = ''Get all epics in a project'',
      inputSchema = JObj [
        (''type'', JStr ''object''),
        (''properties'', JObj [
          (''project_key'', JObj [
            (''type'', JStr ''string''),
            (''description'', JStr ''The project key'')])]),
        (''required'', JArr [JStr ''project_key''])]\<rparr>,
     \<lparr>tool_name = ''jira_get_issue_types'',
      description = ''Get available issue types for a project'',
      inputSchema = JObj [
        (''type'', JStr ''object''),
        (''properties'', JObj [
          (''project_key'', JObj [
            (''type'', JStr ''string''),
            (''description'', JStr ''The project key'')])]),
        (''required'', JArr [JStr ''project_key''])]\<rparr>]"

section \<open>The dispatcher (handle_call_tool)\<close>

datatype TextContent = TextContent string string

text \<open>
  \<open>TextContent t s\<close> is \<^verbatim>\<open>TextContent(type=t, text=s)\<close>. The \<^verbatim>\<open>if\<close>/\<^verbatim>\<open>elif\<close> chain of
  \<^verbatim>\<open>handle_call_tool\<close> compares the tool name with one literal per branch, in this order;
  \<open>None\<close> is its final \<^verbatim>\<open>else\<close>.
\<close>

datatype branch =
    GetProjects
  | GetProjectDetails
  | SearchIssues
  | GetIssue
  | CreateIssue
  | UpdateIssue
  | TransitionIssue
  | GetAvailableTransitions
  | AddComment
  | GetEpics
  | GetIssueTypes

definition dispatch :: "string \<Rightarrow> branch option" where
  "dispatch name =
     (if name = ''jira_get_projects'' then Some GetProjects
      else if name = ''jira_get_project_details'' then Some GetProjectDetails
      else if name = ''jira_search_issues'' then Some SearchIssues
      else if name = ''jira_get_issue'' then Some GetIssue
      else if name = ''jira_create_issue'' then Some CreateIssue
      else if name = ''jira_update_issue'' then Some UpdateIssue
      else if name = ''jira_transition_issue'' then Some TransitionIssue
      else if name = ''jira_get_available_transitions'' then Some GetAvailableTransitions
      else if name = ''jira_add_comment'' then Some AddComment
      else if name = ''jira_get_epics'' then Some GetEpics
      else if name = ''jira_get_issue_types'' then Some GetIssueTypes
      else None)"

text \<open>The block \<^verbatim>\<open># Build issue data\<close> of the create branch, with its optional fields.\<close>

definition create_issue_data :: "(string \<times> json) list \<Rightarrow> exc + json" where
  "create_issue_data arguments =
     (case getitem arguments ''project_key'' of Inl e \<Rightarrow> Inl e | Inr project_key \<Rightarrow>
      case getitem arguments ''issue_type'' of Inl e \<Rightarrow> Inl e | Inr issue_type \<Rightarrow>
      case getitem arguments ''summary'' of Inl e \<Rightarrow> Inl e | Inr summary \<Rightarrow>
      let f0 = [(''project'', JObj [(''key'', project_key)]),
                (''issuetype'', JObj [(''name'', issue_type)]),
                (''summary'', summary)];
          f1 = (case map_of arguments ''description'' of
                  None \<Rightarrow> f0
                | Some d \<Rightarrow> setitem f0 ''description''
                    (JObj [(''type'', JStr ''doc''),
                           (''version'', JInt 1),
                           (''content'',
                             JArr [JObj [(''type'', JStr ''paragraph''),
                                         (''content'',
                                           JArr [JObj [(''text'', d),
                                                       (''type'', JStr ''text'')]])]])]));
          f2 = (case map_of arguments ''assignee'' of
                  None \<Rightarrow> f1
                | Some a \<Rightarrow> setitem f1 ''assignee'' (JObj [(''name'', a)]));
          f3 = (case map_of arguments ''priority'' of
                  None \<Rightarrow> f2
                | Some p \<Rightarrow> setitem f2 ''priority'' (JObj [(''name'', p)]));
          f4 = (case map_of arguments ''labels'' of
                  None \<Rightarrow> f3
                | Some l \<Rightarrow> setitem f3 ''labels'' l);
          f5 = (case map_of arguments ''parent_key'' of
                  None \<Rightarrow> f4
                | Some k \<Rightarrow> setitem f4 ''parent'' (JObj [(''key'', k)]))
      in Inr (JObj [(''fields'', JObj f5)]))"

text \<open>The block \<^verbatim>\<open># Build update data\<close> of the update branch; it raises nothing.\<close>

definition update_data :: "(string \<times> json) list \<Rightarrow> json" where
  "update_data arguments =
     (let f0 = [];
          f1 = (case map_of arguments ''summary'' of
                  None \<Rightarrow> f0
                | Some s \<Rightarrow> setitem f0 ''summary'' s);
          f2 = (case map_of arguments ''description'' of
                  None \<Rightarrow> f1
                | Some d \<Rightarrow> setitem f1 ''description''
                    (JObj [(''type'', JStr ''doc''),
                           (''version'', JInt 1),
                           (''content'',
                             JArr [JObj [(''type'', JStr ''paragraph''),
                                         (''content'',
                                           JArr [JObj [(''text'', d),
                                                       (''type'', JStr ''text'')]])]])]));
          f3 = (case map_of arguments ''assignee'' of
                  None \<Rightarrow> f2
                | Some a \<Rightarrow> setitem f2 ''assignee'' (JObj [(''name'', a)]));
          f4 = (case map_of arguments ''priority'' of
                  None \<Rightarrow> f3
                | Some p \<Rightarrow> setitem f3 ''priority'' (JObj [(''name'', p)]));
          f5 = (case map_of arguments ''labels'' of
                  None \<Rightarrow> f4
                | Some l \<Rightarrow> setitem f4 ''labels'' l)
      in JObj [(''fields'', JObj f5)])"

text \<open>
  The loop \<^verbatim>\<open>for transition in transitions\<close> of the transition branch, over the elements
  the iteration yields. Its result is \<^verbatim>\<open>transition_id\<close>: \<^verbatim>\<open>None\<close> when the loop ends
  without a match, \<^verbatim>\<open>transition["id"]\<close> of the first match otherwise (\<^verbatim>\<open>break\<close>). The left
  operand of \<^verbatim>\<open>==\<close> is evaluated before the right one.
\<close>

fun find_transition :: "pylib \<Rightarrow> (string \<times> json) list \<Rightarrow> json list \<Rightarrow> exc + json" where
  "find_transition lib arguments [] = Inr JNull"
| "find_transition lib arguments (transition # rest) =
     (case subscript transition ''name'' of Inl e \<Rightarrow> Inl e | Inr n \<Rightarrow>
      case lower lib n of Inl e \<Rightarrow> Inl e | Inr ln \<Rightarrow>
      case getitem arguments ''transition_name'' of Inl e \<Rightarrow> Inl e | Inr r \<Rightarrow>
      case lower lib r of Inl e \<Rightarrow> Inl e | Inr lr \<Rightarrow>
      if ln = lr then subscript transition ''id''
      else find_transition lib arguments rest)"

text \<open>The comprehension \<^verbatim>\<open>[t["name"] for t in transitions]\<close>.\<close>

fun available_names :: "json list \<Rightarrow> exc + json list" where
  "available_names [] = Inr []"
| "available_names (t # ts) =
     (case subscript t ''name'' of Inl e \<Rightarrow> Inl e | Inr n \<Rightarrow>
      case available_names ts of Inl e \<Rightarrow> Inl e | Inr ns \<Rightarrow> Inr (n # ns))"

text \<open>The body of the \<^verbatim>\<open>try\<close> block, one equation per branch.\<close>

fun run_branch ::
  "branch \<Rightarrow> pylib \<Rightarrow> network \<Rightarrow> JIRAMCPServer \<Rightarrow> (string \<times> json) list \<Rightarrow> TextContent list io" where
  "run_branch GetProjects lib net jira_client arguments log =
     (case get_projects lib net jira_client log of
        (Inl e, log') \<Rightarrow> (Inl e, log')
      | (Inr projects, log') \<Rightarrow> (Inr [TextContent ''text'' (json_dumps lib projects)], log'))"
| "run_branch GetProjectDetails lib net jira_client arguments log =
     (case getitem arguments ''project_key'' of Inl e \<Rightarrow> (Inl e, log) | Inr project_key \<Rightarrow>
      case get_project_details lib net jira_client project_key log of
        (Inl e, log') \<Rightarrow> (Inl e, log')
      | (Inr project, log') \<Rightarrow> (Inr [TextContent ''text'' (json_dumps lib project)], log'))"
| "run_branch SearchIssues lib net jira_client arguments log =
     (case getitem arguments ''jql'' of Inl e \<Rightarrow> (Inl e, log) | Inr jql \<Rightarrow>
      case search_issues lib net jira_client jql
             (case map_of arguments ''fields'' of None \<Rightarrow> JNull | Some v \<Rightarrow> v)
             (case map_of arguments ''max_results'' of None \<Rightarrow> JInt 50 | Some v \<Rightarrow> v) log of
        (Inl e, log') \<Rightarrow> (Inl e, log')
      | (Inr result, log') \<Rightarrow> (Inr [TextContent ''text'' (json_dumps lib result)], log'))"
| "run_branch GetIssue lib net jira_client arguments log =
     (case getitem arguments ''issue_key'' of Inl e \<Rightarrow> (Inl e, log) | Inr issue_key \<Rightarrow>
      case get_issue lib net jira_client issue_key log of
        (Inl e, log') \<Rightarrow> (Inl e, log')
      | (Inr issue, log') \<Rightarrow> (Inr [TextContent ''text'' (json_dumps lib issue)], log'))"
| "run_branch CreateIssue lib net jira_client arguments log =
     (case create_issue_data arguments of Inl e \<Rightarrow> (Inl e, log) | Inr issue_data \<Rightarrow>
      case create_issue lib net jira_client issue_data log of
        (Inl e, log') \<Rightarrow> (Inl e, log')
      | (Inr result, log') \<Rightarrow> (Inr [TextContent ''text'' (json_dumps lib result)], log'))"
| "run_branch UpdateIssue lib net jira_client arguments log =
     (case getitem arguments ''issue_key'' of Inl e \<Rightarrow> (Inl e, log) | Inr issue_key \<Rightarrow>
      case update_issue lib net jira_client issue_key (update_data arguments) log of
        (Inl e, log') \<Rightarrow> (Inl e, log')
      | (Inr u, log') \<Rightarrow>
          (Inr [TextContent ''text'' (''Issue '' @ fstr lib issue_key @ '' updated successfully'')],
           log'))"
| "run_branch TransitionIssue lib net jira_client arguments log =
     (case getitem arguments ''issue_key'' of Inl e \<Rightarrow> (Inl e, log) | Inr issue_key \<Rightarrow>
      case get_issue_transitions lib net jira_client issue_key log of
        (Inl e, log1) \<Rightarrow> (Inl e, log1)
      | (Inr transitions, log1) \<Rightarrow>
     (case iterate transitions of Inl e \<Rightarrow> (Inl e, log1) | Inr ts \<Rightarrow>
      case find_transition lib arguments ts of Inl e \<Rightarrow> (Inl e, log1) | Inr transition_id \<Rightarrow>
      if \<not> truthy transition_id then
        (case available_names ts of Inl e \<Rightarrow> (Inl e, log1) | Inr available \<Rightarrow>
         case getitem arguments ''transition_name'' of Inl e \<Rightarrow> (Inl e, log1) | Inr tn \<Rightarrow>
           (Inr [TextContent ''text''
                  (''Transition '' @ quoted (fstr lib tn) @
                   '' not found. Available transitions: '' @ py_repr lib (JArr available))],
            log1))
      else
        (case transition_issue lib net jira_client issue_key transition_id log1 of
           (Inl e, log2) \<Rightarrow> (Inl e, log2)
         | (Inr u, log2) \<Rightarrow>
        (case getitem arguments ''transition_name'' of Inl e \<Rightarrow> (Inl e, log2) | Inr tn \<Rightarrow>
           (Inr [TextContent ''text''
                  (''Issue '' @ fstr lib issue_key @ '' transitioned to '' @ fstr lib tn)],
            log2)))))"
| "run_branch GetAvailableTransitions lib net jira_client arguments log =
     (case getitem arguments ''issue_key'' of Inl e \<Rightarrow> (Inl e, log) | Inr issue_key \<Rightarrow>
      case get_issue_transitions lib net jira_client issue_key log of
        (Inl e, log') \<Rightarrow> (Inl e, log')
      | (Inr transitions, log') \<Rightarrow>
          (Inr [TextContent ''text'' (json_dumps lib transitions)], log'))"
| "run_branch AddComment lib net jira_client arguments log =
     (case getitem arguments ''issue_key'' of Inl e \<Rightarrow> (Inl e, log) | Inr issue_key \<Rightarrow>
      case getitem arguments ''comment'' of Inl e \<Rightarrow> (Inl e, log) | Inr comment \<Rightarrow>
      case add_comment lib net jira_client issue_key comment log of
        (Inl e, log') \<Rightarrow> (Inl e, log')
      | (Inr result, log') \<Rightarrow> (Inr [TextContent ''text'' (json_dumps lib result)], log'))"
| "run_branch GetEpics lib net jira_client arguments log =
     (case getitem arguments ''project_key'' of Inl e \<Rightarrow> (Inl e, log) | Inr project_key \<Rightarrow>
      case get_epics lib net jira_client project_key log of
        (Inl e, log') \<Rightarrow> (Inl e, log')
      | (Inr epics, log') \<Rightarrow> (Inr [TextContent ''text'' (json_dumps lib epics)], log'))"
| "run_branch GetIssueTypes lib net jira_client arguments log =
     (case getitem arguments ''project_key'' of Inl e \<Rightarrow> (Inl e, log) | Inr project_key \<Rightarrow>
      case get_issue_types lib net jira_client project_key log of
        (Inl e, log') \<Rightarrow> (Inl e, log')
      | (Inr issue_types, log') \<Rightarrow>
          (Inr [TextContent ''text'' (json_dumps lib issue_types)], log'))"

definition try_block ::
  "pylib \<Rightarrow> network \<Rightarrow> JIRAMCPServer \<Rightarrow> string \<Rightarrow> (string \<times> json) list \<Rightarrow> TextContent list io" where
  "try_block lib net jira_client name arguments log =
     (case dispatch name of
        Some b \<Rightarrow> run_branch b lib net jira_client arguments log
      | None \<Rightarrow> (Inr [TextContent ''text'' (''Unknown tool: '' @ name)], log))"

text \<open>
  \<^verbatim>\<open>handle_call_tool\<close>: the \<^verbatim>\<open>try\<close> block under \<^verbatim>\<open>except Exception as e\<close>, which returns the
  text \<^verbatim>\<open>f"Error: {str(e)}"\<close>. The result is the returned list and the log of requests.
\<close>

definition handle_call_tool ::
  "pylib \<Rightarrow> network \<Rightarrow> JIRAMCPServer \<Rightarrow> string \<Rightarrow> (string \<times> json) list \<Rightarrow>
     request list \<Rightarrow> TextContent list \<times> request list" where
  "handle_call_tool lib net jira_client name arguments log =
     (case try_block lib net jira_client name arguments log of
        (Inr result, log') \<Rightarrow> (result, log')
      | (Inl e, log') \<Rightarrow> ([TextContent ''text'' (''Error: '' @ str_exc lib e)], log'))"

section \<open>Notions of the specification\<close>

text \<open>
  The rich-text wrapper as the specification words it: a document of type \<^verbatim>\<open>doc\<close>,
  version 1, whose content is one paragraph node whose content is one text run holding
  the given text.
\<close>

definition text_run :: "json \<Rightarrow> json" where
  "text_run t = JObj [(''text'', t), (''type'', JStr ''text'')]"

definition paragraph_node :: "json list \<Rightarrow> json" where
  "paragraph_node runs = JObj [(''type'', JStr ''paragraph''), (''content'', JArr runs)]"

definition rich_text_document :: "json \<Rightarrow> json" where
  "rich_text_document t =
     JObj [(''type'', JStr ''doc''), (''version'', JInt 1), (''content'', JArr [paragraph_node [text_run t]])]"

text \<open>The keys of a dict.\<close>

definition keys :: "(string \<times> json) list \<Rightarrow> string set" where
  "keys d = fst ` set d"

text \<open>The names the catalog declares.\<close>

definition catalog_names :: "string list" where
  "catalog_names = map tool_name handle_list_tools"

text \<open>A transition as the tracker reports it, an identifier and a display name, and the
  response body of the transitions endpoint that lists given transitions.\<close>

definition transition_json :: "string \<times> string \<Rightarrow> json" where
  "transition_json t = JObj [(''id'', JStr (fst t)), (''name'', JStr (snd t))]"

definition transitions_response :: "(string \<times> string) list \<Rightarrow> json" where
  "transitions_response ts = JObj [(''transitions'', JArr (map transition_json ts))]"

text \<open>The argument of \<^verbatim>\<open>search_issues\<close> declared \<^verbatim>\<open>Optional[List[str]]\<close>.\<close>

definition optional_str_list :: "string list option \<Rightarrow> json" where
  "optional_str_list fs = (case fs of None \<Rightarrow> JNull | Some l \<Rightarrow> JArr (map JStr l))"

section \<open>An instance of the Python library\<close>

text \<open>
  The examples below run the server with these functions. \<open>ascii_lower\<close> and \<open>ascii_repr\<close>
  agree with Python on plain ASCII strings without quotes, backslashes or control
  characters, the instance of \<open>urljoin\<close> on a base URL without a path, and the JSON printer
  and parser on values without floats: the decimal text of a float is not modelled.
\<close>

definition ascii_lower :: "string \<Rightarrow> string" where
  "ascii_lower s =
     map (\<lambda>ch. case map_of (zip ''ABCDEFGHIJKLMNOPQRSTUVWXYZ'' ''abcdefghijklmnopqrstuvwxyz'') ch of
                 None \<Rightarrow> ch
               | Some l \<Rightarrow> l) s"

fun decimal :: "nat \<Rightarrow> string" where
  "decimal n =
     (if n < 10 then [''0123456789'' ! n]
      else decimal (n div 10) @ [''0123456789'' ! (n mod 10)])"

declare decimal.simps [simp del]

definition int_decimal :: "int \<Rightarrow> string" where
  "int_decimal i = (if i < 0 then ''-'' @ decimal (nat (- i)) else decimal (nat i))"

fun ascii_repr :: "json \<Rightarrow> string" where
  "ascii_repr JNull = ''None''"
| "ascii_repr (JBool b) = (if b then ''True'' else ''False'')"
| "ascii_repr (JInt i) = int_decimal i"
| "ascii_repr (JFloat w) = ''nan''"
| "ascii_repr (JStr s) = quoted s"
| "ascii_repr (JArr xs) = ''['' @ join_with '', '' (map ascii_repr xs) @ '']''"
| "ascii_repr (JObj d) =
     ''{'' @ join_with '', '' (map (\<lambda>kv. quoted (fst kv) @ '': '' @ ascii_repr (snd kv)) d) @ ''}''"

definition newline_indent :: "nat \<Rightarrow> string" where
  "newline_indent level = CHR 0x0A # replicate (2 * level) CHR '' ''"

text \<open>
  \<^verbatim>\<open>json.dumps(v, indent=2)\<close> and \<^verbatim>\<open>json.loads\<close> as the library documents them: two spaces
  per nesting level, one item per line, \<^verbatim>\<open>", "\<close> and \<^verbatim>\<open>": "\<close> as separators, and every character
  outside the printable ASCII range, the quote and the backslash escaped. A character
  is a code point below 256. The parser reads the JSON grammar with integers as numbers;
  its fuel is the length of the text.
\<close>

definition hex_digits :: string where
  "hex_digits = ''0123456789abcdef''"

definition escape_char :: "char \<Rightarrow> string" where
  "escape_char c =
     (if c = CHR 0x22 then [CHR 0x5C, CHR 0x22]
      else if c = CHR 0x5C then [CHR 0x5C, CHR 0x5C]
      else if c = CHR 0x0A then [CHR 0x5C, CHR ''n'']
      else if c = CHR 0x0D then [CHR 0x5C, CHR ''r'']
      else if c = CHR 0x09 then [CHR 0x5C, CHR ''t'']
      else if c = CHR 0x08 then [CHR 0x5C, CHR ''b'']
      else if c = CHR 0x0C then [CHR 0x5C, CHR ''f'']
      else if (of_char c :: nat) < 32 \<or> 126 < (of_char c :: nat)
        then [CHR 0x5C, CHR ''u'', CHR ''0'', CHR ''0'',
              hex_digits ! (of_char c div 16), hex_digits ! (of_char c mod 16)]
      else [c])"

definition json_string :: "string \<Rightarrow> string" where
  "json_string s = [CHR 0x22] @ concat (map escape_char s) @ [CHR 0x22]"

fun ascii_dumps :: "nat \<Rightarrow> json \<Rightarrow> string" where
  "ascii_dumps level JNull = ''null''"
| "ascii_dumps level (JBool b) = (if b then ''true'' else ''false'')"
| "ascii_dumps level (JInt i) = int_decimal i"
| "ascii_dumps level (JFloat w) = ''NaN''"
| "ascii_dumps level (JStr s) = json_string s"
| "ascii_dumps level (JArr xs) =
     (if xs = [] then ''[]''
      else ''['' @ newline_indent (Suc level) @
           join_with ('','' @ newline_indent (Suc level)) (map (ascii_dumps (Suc level)) xs) @
           newline_indent level @ '']'')"
| "ascii_dumps level (JObj d) =
     (if d = [] then ''{}''
      else ''{'' @ newline_indent (Suc level) @
           join_with ('','' @ newline_indent (Suc level))
             (map (\<lambda>kv. json_string (fst kv) @ '': '' @ ascii_dumps (Suc level) (snd kv)) d) @
           newline_indent level @ ''}'')"

definition is_ws :: "char \<Rightarrow> bool" where
  "is_ws c \<longleftrightarrow> c = CHR '' '' \<or> c = CHR 0x0A \<or> c = CHR 0x0D \<or> c = CHR 0x09"

definition skip_ws :: "string \<Rightarrow> string" where
  "skip_ws = dropWhile is_ws"

definition is_digit :: "char \<Rightarrow> bool" where
  "is_digit c \<longleftrightarrow> c \<in> set ''0123456789''"

definition digit_value :: "char \<Rightarrow> nat" where
  "digit_value c = of_char c - 48"

definition hex_value :: "char \<Rightarrow> nat option" where
  "hex_value c =
     map_of (zip ''0123456789abcdefABCDEF''
               [0, 1, 2, 3, 4, 5, 6, 7, 8, 9, 10, 11, 12, 13, 14, 15, 10, 11, 12, 13, 14, 15]) c"

definition simple_escape :: "char \<Rightarrow> char option" where
  "simple_escape e =
     map_of [(CHR 0x22, CHR 0x22), (CHR 0x5C, CHR 0x5C), (CHR ''/'', CHR ''/''),
             (CHR ''n'', CHR 0x0A), (CHR ''r'', CHR 0x0D), (CHR ''t'', CHR 0x09),
             (CHR ''b'', CHR 0x08), (CHR ''f'', CHR 0x0C)] e"

definition code_point :: "char \<Rightarrow> char \<Rightarrow> char \<Rightarrow> char \<Rightarrow> char option" where
  "code_point h1 h2 h3 h4 =
     (case (hex_value h1, hex_value h2, hex_value h3, hex_value h4) of
        (Some a, Some b, Some c, Some d) \<Rightarrow>
          (if a = 0 \<and> b = 0 then Some (char_of (16 * c + d)) else None)
      | _ \<Rightarrow> None)"

fun parse_string :: "string \<Rightarrow> (string \<times> string) option" where
  "parse_string [] = None"
| "parse_string (c # cs) =
     (if c = CHR 0x22 then Some ([], cs)
      else if c = CHR 0x5C then
        (case cs of
           [] \<Rightarrow> None
         | e # cs1 \<Rightarrow>
             if e = CHR ''u'' then
               (case cs1 of
                  h1 # h2 # h3 # h4 # cs2 \<Rightarrow>
                    (case code_point h1 h2 h3 h4 of
                       None \<Rightarrow> None
                     | Some d \<Rightarrow>
                         (case parse_string cs2 of
                            None \<Rightarrow> None
                          | Some (str, rest) \<Rightarrow> Some (d # str, rest)))
                | _ \<Rightarrow> None)
             else
               (case simple_escape e of
                  None \<Rightarrow> None
                | Some d \<Rightarrow>
                    (case parse_string cs1 of
                       None \<Rightarrow> None
                     | Some (str, rest) \<Rightarrow> Some (d # str, rest))))
      else (case parse_string cs of
              None \<Rightarrow> None
            | Some (str, rest) \<Rightarrow> Some (c # str, rest)))"

definition parse_digits :: "string \<Rightarrow> (nat \<times> string) option" where
  "parse_digits s =
     (let ds = takeWhile is_digit s; rest = dropWhile is_digit s in
      if ds = [] then None
      else if rest \<noteq> [] \<and> hd rest \<in> set ''.eE'' then None
      else Some (foldl (\<lambda>n c. 10 * n + digit_value c) 0 ds, rest))"

fun parse_value :: "nat \<Rightarrow> string \<Rightarrow> (json \<times> string) option"
  and parse_elements :: "nat \<Rightarrow> string \<Rightarrow> (json list \<times> string) option"
  and parse_members :: "nat \<Rightarrow> string \<Rightarrow> ((string \<times> json) list \<times> string) option" where
  "parse_value 0 s = None"
| "parse_value (Suc n) s =
     (case skip_ws s of
        [] \<Rightarrow> None
      | c # cs \<Rightarrow>
          if c = CHR ''n'' then (if take 3 cs = ''ull'' then Some (JNull, drop 3 cs) else None)
          else if c = CHR ''t'' then
            (if take 3 cs = ''rue'' then Some (JBool True, drop 3 cs) else None)
          else if c = CHR ''f'' then
            (if take 4 cs = ''alse'' then Some (JBool False, drop 4 cs) else None)
          else if c = CHR 0x22 then
            (case parse_string cs of
               None \<Rightarrow> None
             | Some (str, rest) \<Rightarrow> Some (JStr str, rest))
          else if c = CHR ''['' then
            (case skip_ws cs of
               [] \<Rightarrow> None
             | d # ds \<Rightarrow>
                 if d = CHR '']'' then Some (JArr [], ds)
                 else (case parse_elements n (d # ds) of
                         None \<Rightarrow> None
                       | Some (xs, rest) \<Rightarrow> Some (JArr xs, rest)))
          else if c = CHR ''{'' then
            (case skip_ws cs of
               [] \<Rightarrow> None
             | d # ds \<Rightarrow>
                 if d = CHR ''}'' then Some (JObj [], ds)
                 else (case parse_members n (d # ds) of
                         None \<Rightarrow> None
                       | Some (ms, rest) \<Rightarrow> Some (JObj ms, rest)))
          else if c = CHR ''-'' then
            (case parse_digits cs of
               None \<Rightarrow> None
             | Some (m, rest) \<Rightarrow> Some (JInt (- int m), rest))
          else
            (case parse_digits (c # cs) of
               None \<Rightarrow> None
             | Some (m, rest) \<Rightarrow> Some (JInt (int m), rest)))"
| "parse_elements 0 s = None"
| "parse_elements (Suc n) s =
     (case parse_value n s of
        None \<Rightarrow> None
      | Some (x, rest) \<Rightarrow>
          (case skip_ws rest of
             [] \<Rightarrow> None
           | c # cs \<Rightarrow>
               if c = CHR '','' then
                 (case parse_elements n cs of
                    None \<Rightarrow> None
                  | Some (xs, rest') \<Rightarrow> Some (x # xs, rest'))
               else if c = CHR '']'' then Some ([x], cs)
               else None))"
| "parse_members 0 s = None"
| "parse_members (Suc n) s =
     (case skip_ws s of
        [] \<Rightarrow> None
      | q # cs \<Rightarrow>
          if q \<noteq> CHR 0x22 then None
          else
            (case parse_string cs of
               None \<Rightarrow> None
             | Some (k, rest) \<Rightarrow>
                 (case skip_ws rest of
                    [] \<Rightarrow> None
                  | colon # rest1 \<Rightarrow>
                      if colon \<noteq> CHR '':'' then None
                      else
                        (case parse_value n rest1 of
                           None \<Rightarrow> None
                         | Some (v, rest2) \<Rightarrow>
                             (case skip_ws rest2 of
                                [] \<Rightarrow> None
                              | c # cs' \<Rightarrow>
                                  if c = CHR '','' then
                                    (case parse_members n cs' of
                                       None \<Rightarrow> None
                                     | Some (ms, rest') \<Rightarrow> Some ((k, v) # ms, rest'))
                                  else if c = CHR ''}'' then Some ([(k, v)], cs')
                                  else None)))))"


text \<open>
  Notions for reading a text back: where the text after a number may not continue it,
  where a text starts with a value, the values without floats, and the fuel that suffices
  to parse the text of a value.
\<close>

definition ends_number :: "string \<Rightarrow> bool" where
  "ends_number rest \<longleftrightarrow> rest = [] \<or> (\<not> is_digit (hd rest) \<and> hd rest \<notin> set ''.eE'')"



definition starts_value :: "string \<Rightarrow> bool" where
  "starts_value s \<longleftrightarrow>
     s \<noteq> [] \<and> \<not> is_ws (hd s) \<and> hd s \<noteq> CHR '']'' \<and> hd s \<noteq> CHR ''}''"

definition b64_alphabet :: string where
  "b64_alphabet = ''ABCDEFGHIJKLMNOPQRSTUVWXYZabcdefghijklmnopqrstuvwxyz0123456789+/''"

fun b64 :: "nat list \<Rightarrow> string" where
  "b64 [] = []"
| "b64 [a] = [b64_alphabet ! (a div 4), b64_alphabet ! ((a mod 4) * 16), CHR ''='', CHR ''='']"
| "b64 [a, b] =
     [b64_alphabet ! (a div 4), b64_alphabet ! ((a mod 4) * 16 + b div 16),
      b64_alphabet ! ((b mod 16) * 4), CHR ''='']"
| "b64 (a # b # c # r) =
     [b64_alphabet ! (a div 4), b64_alphabet ! ((a mod 4) * 16 + b div 16),
      b64_alphabet ! ((b mod 16) * 4 + c div 64), b64_alphabet ! (c mod 64)] @ b64 r"

definition ascii_lib :: pylib where
  "ascii_lib = \<lparr>str_lower = ascii_lower,
                json_dumps = ascii_dumps 0,
                py_repr = ascii_repr,
                urljoin = (\<lambda>base url. base @ url),
                b64encode = (\<lambda>s. b64 (map of_char s))\<rparr>"

definition example_config :: JIRAConfig where
  "example_config = \<lparr>base_url = ''https://tracker.example'', username = ''user'',
                     api_token = ''token'', default_project_key = ''PROJ''\<rparr>"

text \<open>The client after \<^verbatim>\<open>initialize(example_config)\<close>.\<close>

definition example_client :: JIRAMCPServer where
  "example_client =
     \<lparr>config = Some example_config,
      session = Some \<lparr>headers = [(''Authorization'', ''Basic dXNlcjp0b2tlbg==''),
                                  (''Content-Type'', ''application/json''),
                                  (''Accept'', ''application/json'')],
                      timeout_total = 30\<rparr>\<rparr>"

text \<open>A tracker that answers every request with the same body, and one that fails.\<close>

definition always :: "json \<Rightarrow> network" where
  "always body log rq = Inr body"

definition unreachable :: network where
  "unreachable log rq = Inl (OtherError ''Cannot connect to host'')"


section \<open>The request primitive\<close>

lemma initialize_example: "initialize ascii_lib init example_config = Inr example_client"
  by (simp add: initialize_def init_def example_config_def example_client_def ascii_lib_def
      b64_alphabet_def)

lemma initialize_sets_both:
  "initialize lib self cfg = Inr self' \<Longrightarrow> session self' \<noteq> None \<and> config self' = Some cfg"
  by (auto simp: initialize_def Let_def split: if_splits)

lemma make_request_uninitialized:
  "session self = None \<or> config self = None \<Longrightarrow>
   make_request lib net self method endpoint params body log =
     (Inl (ValueError ''JIRA client not initialized''), log)"
  by (auto simp: make_request_def split: option.splits)

lemma make_request_initialized:
  "session self = Some s \<Longrightarrow> config self = Some cfg \<Longrightarrow>
   make_request lib net self method endpoint params body log =
     (net log \<lparr>rq_method = method,
               rq_url = urljoin lib (base_url cfg) (''/rest/api/3/'' @ endpoint),
               rq_params = params, rq_json = body\<rparr>,
      log @ [\<lparr>rq_method = method,
               rq_url = urljoin lib (base_url cfg) (''/rest/api/3/'' @ endpoint),
               rq_params = params, rq_json = body\<rparr>])"
  by (simp add: make_request_def Let_def)

lemma str_items_strs: "str_items lib i (map JStr l) = Inr l"
  by (induction l arbitrary: i) auto

lemma str_join_strs: "str_join lib sep (JArr (map JStr l)) = Inr (join_with sep l)"
  by (simp add: str_join_def str_items_strs)

text \<open>
  Claim C7. On a client whose session or configuration is absent, the request primitive
  raises the configuration error \<^verbatim>\<open>ValueError("JIRA client not initialized")\<close> for every
  method, endpoint and keyword arguments, and issues no request: the log is unchanged.
  So does every operation of the client, with arguments of the declared types.
\<close>

theorem uninitialized_client_raises:
  assumes "session self = None \<or> config self = None"
  shows "make_request lib net self method endpoint params body log =
           (Inl (ValueError ''JIRA client not initialized''), log)
       \<and> get_projects lib net self log = (Inl (ValueError ''JIRA client not initialized''), log)
       \<and> get_project_details lib net self project_key log =
           (Inl (ValueError ''JIRA client not initialized''), log)
       \<and> search_issues lib net self jql (optional_str_list fs) max_results log =
           (Inl (ValueError ''JIRA client not initialized''), log)
       \<and> get_issue lib net self issue_key log =
           (Inl (ValueError ''JIRA client not initialized''), log)
       \<and> create_issue lib net self issue_data log =
           (Inl (ValueError ''JIRA client not initialized''), log)
       \<and> update_issue lib net self issue_key upd log =
           (Inl (ValueError ''JIRA client not initialized''), log)
       \<and> transition_issue lib net self issue_key transition_id log =
           (Inl (ValueError ''JIRA client not initialized''), log)
       \<and> get_issue_transitions lib net self issue_key log =
           (Inl (ValueError ''JIRA client not initialized''), log)
       \<and> add_comment lib net self issue_key comment log =
           (Inl (ValueError ''JIRA client not initialized''), log)
       \<and> get_issue_types lib net self project_key log =
           (Inl (ValueError ''JIRA client not initialized''), log)
       \<and> get_epics lib net self project_key log =
           (Inl (ValueError ''JIRA client not initialized''), log)
       \<and> link_issue_to_epic lib net self issue_key epic_key log =
           (Inl (ValueError ''JIRA client not initialized''), log)"
proof -
  note mr = make_request_uninitialized [OF assms]
  have search: "search_issues lib net self jql (optional_str_list fs) max_results log =
           (Inl (ValueError ''JIRA client not initialized''), log)"
    by (cases fs) (simp_all add: search_issues_def optional_str_list_def str_join_strs mr)
  have epics: "get_epics lib net self project_key log =
           (Inl (ValueError ''JIRA client not initialized''), log)"
    by (simp add: get_epics_def search_issues_def mr)
  show ?thesis
    by (simp add: mr search epics get_projects_def get_project_details_def get_issue_def
        create_issue_def update_issue_def transition_issue_def get_issue_transitions_def
        add_comment_def get_issue_types_def link_issue_to_epic_def)
qed

theorem uninitialized_client_raises_witness:
  "(session init = None \<or> config init = None)
   \<and> make_request ascii_lib (always JNull) init ''GET'' ''project'' None None [] =
        (Inl (ValueError ''JIRA client not initialized''), [])
   \<and> search_issues ascii_lib (always JNull) init (JStr ''project = PROJ'')
        (optional_str_list (Some [''summary'', ''status''])) (JInt 50) [] =
        (Inl (ValueError ''JIRA client not initialized''), [])
   \<and> add_comment ascii_lib (always JNull) init (JStr ''PROJ-1'') (JStr ''hello'') [] =
        (Inl (ValueError ''JIRA client not initialized''), [])"
proof -
  have h: "session init = None \<or> config init = None"
    by (simp add: init_def)
  show ?thesis
    using h uninitialized_client_raises [OF h, of ascii_lib "always JNull" _ _ _ _ "[]"]
    by simp
qed

section \<open>Catalog and dispatch table\<close>

lemma catalog_names_eq:
  "catalog_names =
     [''jira_get_projects'', ''jira_get_project_details'', ''jira_search_issues'',
      ''jira_get_issue'', ''jira_create_issue'', ''jira_update_issue'',
      ''jira_transition_issue'', ''jira_get_available_transitions'', ''jira_add_comment'',
      ''jira_get_epics'', ''jira_get_issue_types'']"
  by (simp add: catalog_names_def handle_list_tools_def)

lemma dispatch_None_iff: "dispatch name = None \<longleftrightarrow> name \<notin> set catalog_names"
  by (simp add: catalog_names_eq dispatch_def)

lemma branch_reached: "\<exists>name \<in> set catalog_names. dispatch name = Some b"
  by (cases b) (simp_all add: catalog_names_eq dispatch_def)

lemma dispatch_inj: "inj_on dispatch (set catalog_names)"
  by (simp add: catalog_names_eq dispatch_def)

text \<open>
  Claim C9. The names that reach a branch of the dispatcher are exactly the names the
  catalog declares. No name is declared twice, distinct declared names reach distinct
  branches, and every branch is reached by a declared name.
\<close>

theorem catalog_dispatch_parity:
  "{name. dispatch name \<noteq> None} = set (map tool_name handle_list_tools)
   \<and> distinct (map tool_name handle_list_tools)
   \<and> inj_on dispatch (set (map tool_name handle_list_tools))
   \<and> (\<forall>b. \<exists>name \<in> set (map tool_name handle_list_tools). dispatch name = Some b)"
proof -
  have 1: "{name. dispatch name \<noteq> None} = set catalog_names"
    using dispatch_None_iff by auto
  have 2: "distinct catalog_names"
    by (simp add: catalog_names_eq)
  show ?thesis
    using 1 2 dispatch_inj branch_reached unfolding catalog_names_def by blast
qed

theorem catalog_dispatch_parity_witness:
  "''jira_add_comment'' \<in> set (map tool_name handle_list_tools)
   \<and> (\<exists>name \<in> set (map tool_name handle_list_tools). dispatch name = Some TransitionIssue)
   \<and> ''jira_bogus'' \<notin> set (map tool_name handle_list_tools)"
proof -
  have "dispatch ''jira_add_comment'' \<noteq> None" and "dispatch ''jira_bogus'' = None"
    by (simp_all add: dispatch_def)
  then show ?thesis
    using catalog_dispatch_parity by blast
qed

lemma dispatch_unknown: "name \<notin> set (map tool_name handle_list_tools) \<Longrightarrow> dispatch name = None"
  using dispatch_None_iff by (simp add: catalog_names_def)

text \<open>
  Claim C5. A tool name that the catalog does not declare, such as \<^verbatim>\<open>jira_bogus\<close>, yields
  the single text \<^verbatim>\<open>Unknown tool: <name>\<close>, which begins with \<^verbatim>\<open>Unknown tool\<close>, whatever
  the arguments are, and no request is issued: the log is unchanged.
\<close>

theorem unknown_tool_no_request:
  assumes "name \<notin> set (map tool_name handle_list_tools)"
  shows "handle_call_tool lib net jira_client name arguments log =
           ([TextContent ''text'' (''Unknown tool: '' @ name)], log)
         \<and> (\<exists>rest. ''Unknown tool: '' @ name = ''Unknown tool'' @ rest)"
  using dispatch_unknown [OF assms] by (simp add: handle_call_tool_def try_block_def)

theorem unknown_tool_no_request_witness:
  "''jira_bogus'' \<notin> set (map tool_name handle_list_tools)
   \<and> handle_call_tool ascii_lib (always JNull) example_client ''jira_bogus''
        [(''issue_key'', JStr ''PROJ-1'')] [] =
        ([TextContent ''text'' ''Unknown tool: jira_bogus''], [])"
proof -
  have h: "''jira_bogus'' \<notin> set (map tool_name handle_list_tools)"
    by (simp add: handle_list_tools_def)
  show ?thesis
    using h unknown_tool_no_request [OF h, of ascii_lib "always JNull" example_client
        "[(''issue_key'', JStr ''PROJ-1'')]" "[]"]
    by simp
qed

section \<open>Field documents\<close>

lemma map_of_setitem: "map_of (setitem d k v) = (map_of d)(k \<mapsto> v)"
  by (induction d) auto

lemma keys_dom: "keys d = dom (map_of d)"
  by (simp add: keys_def dom_map_of_conv_image_fst)

lemma keys_setitem: "keys (setitem d k v) = insert k (keys d)"
  by (simp add: keys_dom map_of_setitem)

lemma create_issue_data_fields:
  assumes "map_of arguments ''project_key'' = Some pk"
    and "map_of arguments ''issue_type'' = Some it"
    and "map_of arguments ''summary'' = Some sm"
  shows "\<exists>fs. create_issue_data arguments = Inr (JObj [(''fields'', JObj fs)])
     \<and> keys fs = {''project'', ''issuetype'', ''summary''}
         \<union> (if ''description'' \<in> dom (map_of arguments) then {''description''} else {})
         \<union> (if ''assignee'' \<in> dom (map_of arguments) then {''assignee''} else {})
         \<union> (if ''priority'' \<in> dom (map_of arguments) then {''priority''} else {})
         \<union> (if ''labels'' \<in> dom (map_of arguments) then {''labels''} else {})
         \<union> (if ''parent_key'' \<in> dom (map_of arguments) then {''parent''} else {})
     \<and> map_of fs ''description'' = map_option rich_text_document (map_of arguments ''description'')"
proof -
  define f0 where "f0 = [(''project'', JObj [(''key'', pk)]),
                (''issuetype'', JObj [(''name'', it)]),
                (''summary'', sm)]"
  define f1 where "f1 = (case map_of arguments ''description'' of
                  None \<Rightarrow> f0
                | Some d \<Rightarrow> setitem f0 ''description'' (rich_text_document d))"
  define f2 where "f2 = (case map_of arguments ''assignee'' of
                  None \<Rightarrow> f1
                | Some a \<Rightarrow> setitem f1 ''assignee'' (JObj [(''name'', a)]))"
  define f3 where "f3 = (case map_of arguments ''priority'' of
                  None \<Rightarrow> f2
                | Some p \<Rightarrow> setitem f2 ''priority'' (JObj [(''name'', p)]))"
  define f4 where "f4 = (case map_of arguments ''labels'' of
                  None \<Rightarrow> f3
                | Some l \<Rightarrow> setitem f3 ''labels'' l)"
  define f5 where "f5 = (case map_of arguments ''parent_key'' of
                  None \<Rightarrow> f4
                | Some k \<Rightarrow> setitem f4 ''parent'' (JObj [(''key'', k)]))"
  have data: "create_issue_data arguments = Inr (JObj [(''fields'', JObj f5)])"
    unfolding f5_def f4_def f3_def f2_def f1_def f0_def rich_text_document_def
      paragraph_node_def text_run_def create_issue_data_def getitem_def Let_def
    using assms by simp
  have k0: "keys f0 = {''project'', ''issuetype'', ''summary''}"
    by (simp add: f0_def keys_def)
  have k1: "keys f1 = keys f0 \<union> (if ''description'' \<in> dom (map_of arguments) then {''description''} else {})"
    by (auto simp: f1_def keys_setitem split: option.splits)
  have k2: "keys f2 = keys f1 \<union> (if ''assignee'' \<in> dom (map_of arguments) then {''assignee''} else {})"
    by (auto simp: f2_def keys_setitem split: option.splits)
  have k3: "keys f3 = keys f2 \<union> (if ''priority'' \<in> dom (map_of arguments) then {''priority''} else {})"
    by (auto simp: f3_def keys_setitem split: option.splits)
  have k4: "keys f4 = keys f3 \<union> (if ''labels'' \<in> dom (map_of arguments) then {''labels''} else {})"
    by (auto simp: f4_def keys_setitem split: option.splits)
  have k5: "keys f5 = keys f4 \<union> (if ''parent_key'' \<in> dom (map_of arguments) then {''parent''} else {})"
    by (auto simp: f5_def keys_setitem split: option.splits)
  have d1: "map_of f1 ''description'' = map_option rich_text_document (map_of arguments ''description'')"
    by (simp add: f1_def f0_def map_of_setitem split: option.splits)
  have d2: "map_of f2 ''description'' = map_of f1 ''description''"
    by (simp add: f2_def map_of_setitem split: option.splits)
  have d3: "map_of f3 ''description'' = map_of f2 ''description''"
    by (simp add: f3_def map_of_setitem split: option.splits)
  have d4: "map_of f4 ''description'' = map_of f3 ''description''"
    by (simp add: f4_def map_of_setitem split: option.splits)
  have d5: "map_of f5 ''description'' = map_of f4 ''description''"
    by (simp add: f5_def map_of_setitem split: option.splits)
  have "keys f5 = {''project'', ''issuetype'', ''summary''}
         \<union> (if ''description'' \<in> dom (map_of arguments) then {''description''} else {})
         \<union> (if ''assignee'' \<in> dom (map_of arguments) then {''assignee''} else {})
         \<union> (if ''priority'' \<in> dom (map_of arguments) then {''priority''} else {})
         \<union> (if ''labels'' \<in> dom (map_of arguments) then {''labels''} else {})
         \<union> (if ''parent_key'' \<in> dom (map_of arguments) then {''parent''} else {})"
    unfolding k5 k4 k3 k2 k1 k0 ..
  moreover have "map_of f5 ''description'' = map_option rich_text_document (map_of arguments ''description'')"
    unfolding d5 d4 d3 d2 d1 ..
  ultimately show ?thesis using data by blast
qed

lemma handle_create_issue:
  assumes "session jira_client = Some s" and "config jira_client = Some cfg"
    and "create_issue_data arguments = Inr d"
  shows "snd (handle_call_tool lib net jira_client ''jira_create_issue'' arguments log) =
         log @ [\<lparr>rq_method = ''POST'',
                  rq_url = urljoin lib (base_url cfg) ''/rest/api/3/issue'',
                  rq_params = None, rq_json = Some d\<rparr>]"
  using assms
  by (simp add: handle_call_tool_def try_block_def dispatch_def create_issue_def
      make_request_initialized split: sum.splits)

lemma handle_update_issue:
  assumes "session jira_client = Some s" and "config jira_client = Some cfg"
    and "map_of arguments ''issue_key'' = Some k"
  shows "handle_call_tool lib net jira_client ''jira_update_issue'' arguments log =
     ((case net log \<lparr>rq_method = ''PUT'',
                      rq_url = urljoin lib (base_url cfg) (''/rest/api/3/issue/'' @ fstr lib k),
                      rq_params = None, rq_json = Some (update_data arguments)\<rparr> of
         Inl e \<Rightarrow> [TextContent ''text'' (''Error: '' @ str_exc lib e)]
       | Inr r \<Rightarrow> [TextContent ''text'' (''Issue '' @ fstr lib k @ '' updated successfully'')]),
      log @ [\<lparr>rq_method = ''PUT'',
               rq_url = urljoin lib (base_url cfg) (''/rest/api/3/issue/'' @ fstr lib k),
               rq_params = None, rq_json = Some (update_data arguments)\<rparr>])"
  using assms
  by (simp add: handle_call_tool_def try_block_def dispatch_def update_issue_def getitem_def
      make_request_initialized split: sum.splits)

lemma handle_add_comment:
  assumes "session jira_client = Some s" and "config jira_client = Some cfg"
    and "map_of arguments ''issue_key'' = Some k" and "map_of arguments ''comment'' = Some cm"
  shows "snd (handle_call_tool lib net jira_client ''jira_add_comment'' arguments log) =
      log @ [\<lparr>rq_method = ''POST'',
               rq_url = urljoin lib (base_url cfg)
                          (''/rest/api/3/issue/'' @ fstr lib k @ ''/comment''),
               rq_params = None,
               rq_json = Some (JObj [(''body'', rich_text_document cm)])\<rparr>]"
  using assms
  by (simp add: handle_call_tool_def try_block_def dispatch_def add_comment_def getitem_def
      make_request_initialized rich_text_document_def paragraph_node_def text_run_def
      split: sum.splits)

lemma map_of_optional:
  "map_of (case x of None \<Rightarrow> f | Some v \<Rightarrow> setitem f k (g v)) =
     (case x of None \<Rightarrow> map_of f | Some v \<Rightarrow> (map_of f)(k \<mapsto> g v))"
  by (simp add: map_of_setitem split: option.splits)

lemma update_data_only_labels:
  assumes "map_of arguments ''summary'' = None" and "map_of arguments ''description'' = None"
    and "map_of arguments ''assignee'' = None" and "map_of arguments ''priority'' = None"
    and "map_of arguments ''labels'' = Some l"
  shows "update_data arguments = JObj [(''fields'', JObj [(''labels'', l)])]"
  using assms by (simp add: update_data_def)

lemma update_data_nothing:
  assumes "map_of arguments ''summary'' = None" and "map_of arguments ''description'' = None"
    and "map_of arguments ''assignee'' = None" and "map_of arguments ''priority'' = None"
    and "map_of arguments ''labels'' = None"
  shows "update_data arguments = JObj [(''fields'', JObj [])]"
  using assms by (simp add: update_data_def)

lemma update_data_description:
  assumes "map_of arguments ''description'' = Some d"
  shows "\<exists>fs. update_data arguments = JObj [(''fields'', JObj fs)]
           \<and> map_of fs ''description'' = Some (rich_text_document d)"
proof -
  define f1 where "f1 = (case map_of arguments ''summary'' of
                  None \<Rightarrow> []
                | Some s \<Rightarrow> setitem [] ''summary'' s)"
  define f2 where "f2 = setitem f1 ''description'' (rich_text_document d)"
  define f3 where "f3 = (case map_of arguments ''assignee'' of
                  None \<Rightarrow> f2
                | Some a \<Rightarrow> setitem f2 ''assignee'' (JObj [(''name'', a)]))"
  define f4 where "f4 = (case map_of arguments ''priority'' of
                  None \<Rightarrow> f3
                | Some p \<Rightarrow> setitem f3 ''priority'' (JObj [(''name'', p)]))"
  define f5 where "f5 = (case map_of arguments ''labels'' of
                  None \<Rightarrow> f4
                | Some l \<Rightarrow> setitem f4 ''labels'' l)"
  have data: "update_data arguments = JObj [(''fields'', JObj f5)]"
    unfolding f5_def f4_def f3_def f2_def f1_def rich_text_document_def
      paragraph_node_def text_run_def update_data_def Let_def
    using assms by (simp cong: option.case_cong)
  have d2: "map_of f2 ''description'' = Some (rich_text_document d)"
    by (simp add: f2_def map_of_setitem)
  have d3: "map_of f3 ''description'' = map_of f2 ''description''"
    by (simp add: f3_def map_of_setitem split: option.splits)
  have d4: "map_of f4 ''description'' = map_of f3 ''description''"
    by (simp add: f4_def map_of_setitem split: option.splits)
  have d5: "map_of f5 ''description'' = map_of f4 ''description''"
    by (simp add: f5_def map_of_setitem split: option.splits)
  have "map_of f5 ''description'' = Some (rich_text_document d)"
    unfolding d5 d4 d3 d2 ..
  with data show ?thesis by blast
qed

text \<open>
  Claim C3. When the create-issue tool is called on an initialized client with the three
  required arguments, the one request it issues is a POST of a document
  \<^verbatim>\<open>{"fields": fs}\<close> in which \<^verbatim>\<open>project\<close>, \<^verbatim>\<open>issuetype\<close> and \<^verbatim>\<open>summary\<close> are present, no key
  other than these and the five optional ones occurs, and the key of each optional
  argument (\<^verbatim>\<open>description\<close>, \<^verbatim>\<open>assignee\<close>, \<^verbatim>\<open>priority\<close>, \<^verbatim>\<open>labels\<close>, and \<^verbatim>\<open>parent\<close> for
  \<^verbatim>\<open>parent_key\<close>) is present if and only if the caller supplied the argument. With exactly
  the three required arguments the keys are exactly \<^verbatim>\<open>project\<close>, \<^verbatim>\<open>issuetype\<close>, \<^verbatim>\<open>summary\<close>.
\<close>

theorem create_issue_field_keys:
  assumes "session jira_client = Some s" and "config jira_client = Some cfg"
    and "map_of arguments ''project_key'' = Some pk"
    and "map_of arguments ''issue_type'' = Some it"
    and "map_of arguments ''summary'' = Some sm"
  shows "\<exists>fs. snd (handle_call_tool lib net jira_client ''jira_create_issue'' arguments log) =
               log @ [\<lparr>rq_method = ''POST'',
                        rq_url = urljoin lib (base_url cfg) ''/rest/api/3/issue'',
                        rq_params = None,
                        rq_json = Some (JObj [(''fields'', JObj fs)])\<rparr>]
           \<and> {''project'', ''issuetype'', ''summary''} \<subseteq> keys fs
           \<and> keys fs \<subseteq> {''project'', ''issuetype'', ''summary'', ''description'', ''assignee'',
                          ''priority'', ''labels'', ''parent''}
           \<and> (''description'' \<in> keys fs \<longleftrightarrow> ''description'' \<in> dom (map_of arguments))
           \<and> (''assignee'' \<in> keys fs \<longleftrightarrow> ''assignee'' \<in> dom (map_of arguments))
           \<and> (''priority'' \<in> keys fs \<longleftrightarrow> ''priority'' \<in> dom (map_of arguments))
           \<and> (''labels'' \<in> keys fs \<longleftrightarrow> ''labels'' \<in> dom (map_of arguments))
           \<and> (''parent'' \<in> keys fs \<longleftrightarrow> ''parent_key'' \<in> dom (map_of arguments))
           \<and> (dom (map_of arguments) = {''project_key'', ''issue_type'', ''summary''} \<longrightarrow>
                keys fs = {''project'', ''issuetype'', ''summary''})"
proof -
  from create_issue_data_fields [OF assms(3-5)] obtain fs where
    data: "create_issue_data arguments = Inr (JObj [(''fields'', JObj fs)])" and
    ks: "keys fs = {''project'', ''issuetype'', ''summary''}
         \<union> (if ''description'' \<in> dom (map_of arguments) then {''description''} else {})
         \<union> (if ''assignee'' \<in> dom (map_of arguments) then {''assignee''} else {})
         \<union> (if ''priority'' \<in> dom (map_of arguments) then {''priority''} else {})
         \<union> (if ''labels'' \<in> dom (map_of arguments) then {''labels''} else {})
         \<union> (if ''parent_key'' \<in> dom (map_of arguments) then {''parent''} else {})"
    by blast
  have sent: "snd (handle_call_tool lib net jira_client ''jira_create_issue'' arguments log) =
               log @ [\<lparr>rq_method = ''POST'',
                        rq_url = urljoin lib (base_url cfg) ''/rest/api/3/issue'',
                        rq_params = None,
                        rq_json = Some (JObj [(''fields'', JObj fs)])\<rparr>]"
    by (rule handle_create_issue [OF assms(1,2) data])
  have req: "{''project'', ''issuetype'', ''summary''} \<subseteq> keys fs"
    unfolding ks by blast
  have upper: "keys fs \<subseteq> {''project'', ''issuetype'', ''summary'', ''description'', ''assignee'',
                          ''priority'', ''labels'', ''parent''}"
    unfolding ks by (intro Un_least) simp_all
  have o1: "''description'' \<in> keys fs \<longleftrightarrow> ''description'' \<in> dom (map_of arguments)"
    unfolding ks by simp
  have o2: "''assignee'' \<in> keys fs \<longleftrightarrow> ''assignee'' \<in> dom (map_of arguments)"
    unfolding ks by simp
  have o3: "''priority'' \<in> keys fs \<longleftrightarrow> ''priority'' \<in> dom (map_of arguments)"
    unfolding ks by simp
  have o4: "''labels'' \<in> keys fs \<longleftrightarrow> ''labels'' \<in> dom (map_of arguments)"
    unfolding ks by simp
  have o5: "''parent'' \<in> keys fs \<longleftrightarrow> ''parent_key'' \<in> dom (map_of arguments)"
    unfolding ks by simp
  have exact: "dom (map_of arguments) = {''project_key'', ''issue_type'', ''summary''} \<longrightarrow>
                keys fs = {''project'', ''issuetype'', ''summary''}"
    unfolding ks by simp
  show ?thesis
    by (rule exI [of _ fs]) (intro conjI sent req upper o1 o2 o3 o4 o5 exact)
qed

theorem create_issue_field_keys_witness:
  "session example_client \<noteq> None \<and> config example_client = Some example_config
   \<and> dom (map_of [(''project_key'', JStr ''PROJ''), (''issue_type'', JStr ''Task''),
                   (''summary'', JStr ''Fix login'')]) =
       {''project_key'', ''issue_type'', ''summary''}
   \<and> (\<exists>fs. snd (handle_call_tool ascii_lib (always JNull) example_client ''jira_create_issue''
                 [(''project_key'', JStr ''PROJ''), (''issue_type'', JStr ''Task''),
                  (''summary'', JStr ''Fix login'')] []) =
               [\<lparr>rq_method = ''POST'',
                 rq_url = ''https://tracker.example/rest/api/3/issue'',
                 rq_params = None,
                 rq_json = Some (JObj [(''fields'', JObj fs)])\<rparr>]
           \<and> keys fs = {''project'', ''issuetype'', ''summary''})"
proof -
  let ?args = "[(''project_key'', JStr ''PROJ''), (''issue_type'', JStr ''Task''),
                (''summary'', JStr ''Fix login'')]"
  have s: "session example_client =
      Some \<lparr>headers = [(''Authorization'', ''Basic dXNlcjp0b2tlbg==''),
                       (''Content-Type'', ''application/json''),
                       (''Accept'', ''application/json'')],
            timeout_total = 30\<rparr>"
    and c: "config example_client = Some example_config"
    by (simp_all add: example_client_def)
  have p1: "map_of ?args ''project_key'' = Some (JStr ''PROJ'')"
    and p2: "map_of ?args ''issue_type'' = Some (JStr ''Task'')"
    and p3: "map_of ?args ''summary'' = Some (JStr ''Fix login'')"
    by simp_all
  have d: "dom (map_of ?args) = {''project_key'', ''issue_type'', ''summary''}"
    by simp
  have u: "urljoin ascii_lib (base_url example_config) ''/rest/api/3/issue'' =
           ''https://tracker.example/rest/api/3/issue''"
    by (simp add: ascii_lib_def example_config_def)
  from create_issue_field_keys [OF s c p1 p2 p3, of ascii_lib "always JNull" "[]"]
  obtain fs where
    sent: "snd (handle_call_tool ascii_lib (always JNull) example_client ''jira_create_issue''
                 ?args []) =
               [] @ [\<lparr>rq_method = ''POST'',
                 rq_url = urljoin ascii_lib (base_url example_config) ''/rest/api/3/issue'',
                 rq_params = None,
                 rq_json = Some (JObj [(''fields'', JObj fs)])\<rparr>]"
    and exact: "dom (map_of ?args) = {''project_key'', ''issue_type'', ''summary''} \<longrightarrow>
       keys fs = {''project'', ''issuetype'', ''summary''}"
    by (elim exE conjE) (rule that, assumption+)
  from exact d have k: "keys fs = {''project'', ''issuetype'', ''summary''}"
    by (rule mp)
  have "session example_client \<noteq> None"
    using s by simp
  moreover have "\<exists>fs. snd (handle_call_tool ascii_lib (always JNull) example_client
                 ''jira_create_issue'' ?args []) =
               [\<lparr>rq_method = ''POST'',
                 rq_url = ''https://tracker.example/rest/api/3/issue'',
                 rq_params = None,
                 rq_json = Some (JObj [(''fields'', JObj fs)])\<rparr>]
           \<and> keys fs = {''project'', ''issuetype'', ''summary''}"
    using sent k unfolding u append_Nil by (intro exI [of _ fs] conjI)
  ultimately show ?thesis
    using c d by (intro conjI)
qed

text \<open>
  Claim C4. When the update-issue tool is called on an initialized client with
  \<^verbatim>\<open>issue_key\<close> and \<^verbatim>\<open>labels\<close> and without \<^verbatim>\<open>summary\<close>, \<^verbatim>\<open>description\<close>, \<^verbatim>\<open>assignee\<close> and
  \<^verbatim>\<open>priority\<close>, the one request it issues is a PUT whose body is
  \<^verbatim>\<open>{"fields": {"labels": l}}\<close>: the fields document has the single key \<^verbatim>\<open>labels\<close>.
\<close>

theorem update_only_labels:
  assumes "session jira_client = Some s" and "config jira_client = Some cfg"
    and "map_of arguments ''issue_key'' = Some k"
    and "map_of arguments ''labels'' = Some l"
    and "map_of arguments ''summary'' = None"
    and "map_of arguments ''description'' = None"
    and "map_of arguments ''assignee'' = None"
    and "map_of arguments ''priority'' = None"
  shows "snd (handle_call_tool lib net jira_client ''jira_update_issue'' arguments log) =
           log @ [\<lparr>rq_method = ''PUT'',
                    rq_url = urljoin lib (base_url cfg) (''/rest/api/3/issue/'' @ fstr lib k),
                    rq_params = None,
                    rq_json = Some (JObj [(''fields'', JObj [(''labels'', l)])])\<rparr>]
         \<and> keys [(''labels'', l)] = {''labels''}"
proof -
  have "update_data arguments = JObj [(''fields'', JObj [(''labels'', l)])]"
    using assms(4-8) by (simp add: update_data_only_labels)
  then show ?thesis
    using handle_update_issue [OF assms(1-3), of lib net log] by (simp add: keys_def)
qed

theorem update_only_labels_witness:
  "session example_client \<noteq> None \<and> config example_client = Some example_config
   \<and> snd (handle_call_tool ascii_lib (always JNull) example_client ''jira_update_issue''
            [(''issue_key'', JStr ''PROJ-7''), (''labels'', JArr [JStr ''backend''])] []) =
       [\<lparr>rq_method = ''PUT'',
         rq_url = ''https://tracker.example/rest/api/3/issue/PROJ-7'',
         rq_params = None,
         rq_json = Some (JObj [(''fields'', JObj [(''labels'', JArr [JStr ''backend''])])])\<rparr>]"
proof -
  let ?args = "[(''issue_key'', JStr ''PROJ-7''), (''labels'', JArr [JStr ''backend''])]"
  have s: "session example_client =
      Some \<lparr>headers = [(''Authorization'', ''Basic dXNlcjp0b2tlbg==''),
                       (''Content-Type'', ''application/json''),
                       (''Accept'', ''application/json'')],
            timeout_total = 30\<rparr>"
    and c: "config example_client = Some example_config"
    by (simp_all add: example_client_def)
  have a: "map_of ?args ''issue_key'' = Some (JStr ''PROJ-7'')"
    "map_of ?args ''labels'' = Some (JArr [JStr ''backend''])"
    "map_of ?args ''summary'' = None" "map_of ?args ''description'' = None"
    "map_of ?args ''assignee'' = None" "map_of ?args ''priority'' = None"
    by simp_all
  have u: "urljoin ascii_lib (base_url example_config)
             (''/rest/api/3/issue/'' @ fstr ascii_lib (JStr ''PROJ-7'')) =
           ''https://tracker.example/rest/api/3/issue/PROJ-7''"
    by (simp add: ascii_lib_def example_config_def)
  have "session example_client \<noteq> None"
    using s by simp
  moreover note c
  moreover have "snd (handle_call_tool ascii_lib (always JNull) example_client
            ''jira_update_issue'' ?args []) =
       [\<lparr>rq_method = ''PUT'',
         rq_url = ''https://tracker.example/rest/api/3/issue/PROJ-7'',
         rq_params = None,
         rq_json = Some (JObj [(''fields'', JObj [(''labels'', JArr [JStr ''backend''])])])\<rparr>]"
    using update_only_labels [OF s c a, of ascii_lib "always JNull" "[]", THEN conjunct1]
    unfolding u append_Nil .
  ultimately show ?thesis
    by (intro conjI)
qed

text \<open>
  Claim C10. When the update-issue tool is called on an initialized client with
  \<^verbatim>\<open>issue_key\<close> and none of the optional fields, it still issues exactly one request, a PUT
  whose body is \<^verbatim>\<open>{"fields": {}}\<close>, and when the tracker answers that request
  successfully it returns the text \<^verbatim>\<open>Issue <key> updated successfully\<close>.
\<close>

theorem update_without_fields:
  assumes "session jira_client = Some s" and "config jira_client = Some cfg"
    and "map_of arguments ''issue_key'' = Some k"
    and "map_of arguments ''summary'' = None"
    and "map_of arguments ''description'' = None"
    and "map_of arguments ''assignee'' = None"
    and "map_of arguments ''priority'' = None"
    and "map_of arguments ''labels'' = None"
  shows "snd (handle_call_tool lib net jira_client ''jira_update_issue'' arguments log) =
           log @ [\<lparr>rq_method = ''PUT'',
                    rq_url = urljoin lib (base_url cfg) (''/rest/api/3/issue/'' @ fstr lib k),
                    rq_params = None,
                    rq_json = Some (JObj [(''fields'', JObj [])])\<rparr>]
         \<and> (\<forall>r. net log \<lparr>rq_method = ''PUT'',
                    rq_url = urljoin lib (base_url cfg) (''/rest/api/3/issue/'' @ fstr lib k),
                    rq_params = None,
                    rq_json = Some (JObj [(''fields'', JObj [])])\<rparr> = Inr r \<longrightarrow>
              fst (handle_call_tool lib net jira_client ''jira_update_issue'' arguments log) =
                [TextContent ''text'' (''Issue '' @ fstr lib k @ '' updated successfully'')])"
proof -
  have "update_data arguments = JObj [(''fields'', JObj [])]"
    using assms(4-8) by (simp add: update_data_nothing)
  then show ?thesis
    using handle_update_issue [OF assms(1-3), of lib net log] by simp
qed

theorem update_without_fields_witness:
  "session example_client \<noteq> None \<and> config example_client = Some example_config
   \<and> handle_call_tool ascii_lib (always JNull) example_client ''jira_update_issue''
            [(''issue_key'', JStr ''PROJ-7'')] [] =
       ([TextContent ''text'' ''Issue PROJ-7 updated successfully''],
        [\<lparr>rq_method = ''PUT'',
          rq_url = ''https://tracker.example/rest/api/3/issue/PROJ-7'',
          rq_params = None,
          rq_json = Some (JObj [(''fields'', JObj [])])\<rparr>])"
proof -
  let ?args = "[(''issue_key'', JStr ''PROJ-7'')]"
  let ?rq = "\<lparr>rq_method = ''PUT'',
          rq_url = urljoin ascii_lib (base_url example_config)
             (''/rest/api/3/issue/'' @ fstr ascii_lib (JStr ''PROJ-7'')),
          rq_params = None,
          rq_json = Some (JObj [(''fields'', JObj [])])\<rparr>"
  have s: "session example_client =
      Some \<lparr>headers = [(''Authorization'', ''Basic dXNlcjp0b2tlbg==''),
                       (''Content-Type'', ''application/json''),
                       (''Accept'', ''application/json'')],
            timeout_total = 30\<rparr>"
    and c: "config example_client = Some example_config"
    by (simp_all add: example_client_def)
  have a: "map_of ?args ''issue_key'' = Some (JStr ''PROJ-7'')"
    "map_of ?args ''summary'' = None" "map_of ?args ''description'' = None"
    "map_of ?args ''assignee'' = None" "map_of ?args ''priority'' = None"
    "map_of ?args ''labels'' = None"
    by simp_all
  have u: "urljoin ascii_lib (base_url example_config)
             (''/rest/api/3/issue/'' @ fstr ascii_lib (JStr ''PROJ-7'')) =
           ''https://tracker.example/rest/api/3/issue/PROJ-7''"
    by (simp add: ascii_lib_def example_config_def)
  have t: "''Issue '' @ fstr ascii_lib (JStr ''PROJ-7'') @ '' updated successfully'' =
           ''Issue PROJ-7 updated successfully''"
    by simp
  have ok: "always JNull [] ?rq = Inr JNull"
    by (simp add: always_def)
  note T = update_without_fields [OF s c a, of ascii_lib "always JNull" "[]"]
  from T have 1: "snd (handle_call_tool ascii_lib (always JNull) example_client
            ''jira_update_issue'' ?args []) = [] @ [?rq]"
    by (rule conjunct1)
  from T have "\<forall>r. always JNull [] ?rq = Inr r \<longrightarrow>
      fst (handle_call_tool ascii_lib (always JNull) example_client ''jira_update_issue'' ?args []) =
        [TextContent ''text''
          (''Issue '' @ fstr ascii_lib (JStr ''PROJ-7'') @ '' updated successfully'')]"
    by (rule conjunct2)
  with ok have 2: "fst (handle_call_tool ascii_lib (always JNull) example_client
            ''jira_update_issue'' ?args []) =
        [TextContent ''text''
          (''Issue '' @ fstr ascii_lib (JStr ''PROJ-7'') @ '' updated successfully'')]"
    by blast
  have "handle_call_tool ascii_lib (always JNull) example_client ''jira_update_issue'' ?args [] =
       ([TextContent ''text'' ''Issue PROJ-7 updated successfully''],
        [\<lparr>rq_method = ''PUT'',
          rq_url = ''https://tracker.example/rest/api/3/issue/PROJ-7'',
          rq_params = None,
          rq_json = Some (JObj [(''fields'', JObj [])])\<rparr>])"
    using 1 2 unfolding u t append_Nil by (rule_tac prod_eqI) simp_all
  moreover have "session example_client \<noteq> None"
    using s by simp
  ultimately show ?thesis
    using c by (intro conjI)
qed

text \<open>
  Claim C6. On an initialized client, the request of a create-issue call that has a
  \<^verbatim>\<open>description\<close>, the request of an update-issue call that has a \<^verbatim>\<open>description\<close> and the
  request of an add-comment call all carry the caller's text, unchanged, inside the same
  rich-text document: type \<^verbatim>\<open>doc\<close>, version 1, one paragraph node, one text run. It is the
  \<^verbatim>\<open>description\<close> field of the first two and the \<^verbatim>\<open>body\<close> of the third.
\<close>

theorem rich_text_wrapper:
  assumes "session jira_client = Some s" and "config jira_client = Some cfg"
  shows "(map_of arguments ''project_key'' = Some pk \<and> map_of arguments ''issue_type'' = Some it
          \<and> map_of arguments ''summary'' = Some sm \<and> map_of arguments ''description'' = Some d
          \<longrightarrow> (\<exists>fs. snd (handle_call_tool lib net jira_client ''jira_create_issue'' arguments log) =
                       log @ [\<lparr>rq_method = ''POST'',
                                rq_url = urljoin lib (base_url cfg) ''/rest/api/3/issue'',
                                rq_params = None,
                                rq_json = Some (JObj [(''fields'', JObj fs)])\<rparr>]
                   \<and> map_of fs ''description'' = Some (rich_text_document d)))
       \<and> (map_of arguments ''issue_key'' = Some k \<and> map_of arguments ''description'' = Some d
          \<longrightarrow> (\<exists>fs. snd (handle_call_tool lib net jira_client ''jira_update_issue'' arguments log) =
                       log @ [\<lparr>rq_method = ''PUT'',
                                rq_url = urljoin lib (base_url cfg)
                                           (''/rest/api/3/issue/'' @ fstr lib k),
                                rq_params = None,
                                rq_json = Some (JObj [(''fields'', JObj fs)])\<rparr>]
                   \<and> map_of fs ''description'' = Some (rich_text_document d)))
       \<and> (map_of arguments ''issue_key'' = Some k \<and> map_of arguments ''comment'' = Some cm
          \<longrightarrow> snd (handle_call_tool lib net jira_client ''jira_add_comment'' arguments log) =
                log @ [\<lparr>rq_method = ''POST'',
                         rq_url = urljoin lib (base_url cfg)
                                    (''/rest/api/3/issue/'' @ fstr lib k @ ''/comment''),
                         rq_params = None,
                         rq_json = Some (JObj [(''body'', rich_text_document cm)])\<rparr>])"
proof (intro conjI impI; elim conjE)
  assume a: "map_of arguments ''project_key'' = Some pk" "map_of arguments ''issue_type'' = Some it"
    "map_of arguments ''summary'' = Some sm" and dsc: "map_of arguments ''description'' = Some d"
  from create_issue_data_fields [OF a] obtain fs where
    data: "create_issue_data arguments = Inr (JObj [(''fields'', JObj fs)])" and
    doc: "map_of fs ''description'' = map_option rich_text_document (map_of arguments ''description'')"
    by (elim exE conjE) (rule that, assumption+)
  from doc dsc have "map_of fs ''description'' = Some (rich_text_document d)"
    by simp
  with handle_create_issue [OF assms data, of lib net log]
  show "\<exists>fs. snd (handle_call_tool lib net jira_client ''jira_create_issue'' arguments log) =
                       log @ [\<lparr>rq_method = ''POST'',
                                rq_url = urljoin lib (base_url cfg) ''/rest/api/3/issue'',
                                rq_params = None,
                                rq_json = Some (JObj [(''fields'', JObj fs)])\<rparr>]
                   \<and> map_of fs ''description'' = Some (rich_text_document d)"
    by (intro exI [of _ fs] conjI)
next
  assume key: "map_of arguments ''issue_key'' = Some k"
    and dsc: "map_of arguments ''description'' = Some d"
  from update_data_description [OF dsc] obtain fs where
    data: "update_data arguments = JObj [(''fields'', JObj fs)]" and
    doc: "map_of fs ''description'' = Some (rich_text_document d)"
    by (elim exE conjE) (rule that, assumption+)
  have "snd (handle_call_tool lib net jira_client ''jira_update_issue'' arguments log) =
                       log @ [\<lparr>rq_method = ''PUT'',
                                rq_url = urljoin lib (base_url cfg)
                                           (''/rest/api/3/issue/'' @ fstr lib k),
                                rq_params = None,
                                rq_json = Some (JObj [(''fields'', JObj fs)])\<rparr>]"
    using handle_update_issue [OF assms key, of lib net log] data by simp
  with doc
  show "\<exists>fs. snd (handle_call_tool lib net jira_client ''jira_update_issue'' arguments log) =
                       log @ [\<lparr>rq_method = ''PUT'',
                                rq_url = urljoin lib (base_url cfg)
                                           (''/rest/api/3/issue/'' @ fstr lib k),
                                rq_params = None,
                                rq_json = Some (JObj [(''fields'', JObj fs)])\<rparr>]
                   \<and> map_of fs ''description'' = Some (rich_text_document d)"
    by (intro exI [of _ fs] conjI)
next
  assume key: "map_of arguments ''issue_key'' = Some k"
    and cmt: "map_of arguments ''comment'' = Some cm"
  show "snd (handle_call_tool lib net jira_client ''jira_add_comment'' arguments log) =
                log @ [\<lparr>rq_method = ''POST'',
                         rq_url = urljoin lib (base_url cfg)
                                    (''/rest/api/3/issue/'' @ fstr lib k @ ''/comment''),
                         rq_params = None,
                         rq_json = Some (JObj [(''body'', rich_text_document cm)])\<rparr>]"
    by (rule handle_add_comment [OF assms key cmt])
qed

theorem rich_text_wrapper_witness:
  "session example_client \<noteq> None \<and> config example_client = Some example_config
   \<and> (\<exists>fs. snd (handle_call_tool ascii_lib (always JNull) example_client ''jira_create_issue''
                 [(''project_key'', JStr ''PROJ''), (''issue_type'', JStr ''Bug''),
                  (''summary'', JStr ''Crash''), (''description'', JStr ''Steps to reproduce''),
                  (''issue_key'', JStr ''PROJ-7''), (''comment'', JStr ''Looks good'')] []) =
               [\<lparr>rq_method = ''POST'',
                 rq_url = ''https://tracker.example/rest/api/3/issue'',
                 rq_params = None,
                 rq_json = Some (JObj [(''fields'', JObj fs)])\<rparr>]
           \<and> map_of fs ''description'' = Some (rich_text_document (JStr ''Steps to reproduce'')))
   \<and> (\<exists>fs. snd (handle_call_tool ascii_lib (always JNull) example_client ''jira_update_issue''
                 [(''project_key'', JStr ''PROJ''), (''issue_type'', JStr ''Bug''),
                  (''summary'', JStr ''Crash''), (''description'', JStr ''Steps to reproduce''),
                  (''issue_key'', JStr ''PROJ-7''), (''comment'', JStr ''Looks good'')] []) =
               [\<lparr>rq_method = ''PUT'',
                 rq_url = ''https://tracker.example/rest/api/3/issue/PROJ-7'',
                 rq_params = None,
                 rq_json = Some (JObj [(''fields'', JObj fs)])\<rparr>]
           \<and> map_of fs ''description'' = Some (rich_text_document (JStr ''Steps to reproduce'')))
   \<and> snd (handle_call_tool ascii_lib (always JNull) example_client ''jira_add_comment''
                 [(''project_key'', JStr ''PROJ''), (''issue_type'', JStr ''Bug''),
                  (''summary'', JStr ''Crash''), (''description'', JStr ''Steps to reproduce''),
                  (''issue_key'', JStr ''PROJ-7''), (''comment'', JStr ''Looks good'')] []) =
               [\<lparr>rq_method = ''POST'',
                 rq_url = ''https://tracker.example/rest/api/3/issue/PROJ-7/comment'',
                 rq_params = None,
                 rq_json = Some (JObj [(''body'', rich_text_document (JStr ''Looks good''))])\<rparr>]"
proof -
  let ?args = "[(''project_key'', JStr ''PROJ''), (''issue_type'', JStr ''Bug''),
                (''summary'', JStr ''Crash''), (''description'', JStr ''Steps to reproduce''),
                (''issue_key'', JStr ''PROJ-7''), (''comment'', JStr ''Looks good'')]"
  have s: "session example_client =
      Some \<lparr>headers = [(''Authorization'', ''Basic dXNlcjp0b2tlbg==''),
                       (''Content-Type'', ''application/json''),
                       (''Accept'', ''application/json'')],
            timeout_total = 30\<rparr>"
    and c: "config example_client = Some example_config"
    by (simp_all add: example_client_def)
  have p1: "map_of ?args ''project_key'' = Some (JStr ''PROJ'')"
    and p2: "map_of ?args ''issue_type'' = Some (JStr ''Bug'')"
    and p3: "map_of ?args ''summary'' = Some (JStr ''Crash'')"
    and p4: "map_of ?args ''description'' = Some (JStr ''Steps to reproduce'')"
    and p5: "map_of ?args ''issue_key'' = Some (JStr ''PROJ-7'')"
    and p6: "map_of ?args ''comment'' = Some (JStr ''Looks good'')"
    by simp_all
  have u1: "urljoin ascii_lib (base_url example_config) ''/rest/api/3/issue'' =
            ''https://tracker.example/rest/api/3/issue''"
    and u2: "urljoin ascii_lib (base_url example_config)
               (''/rest/api/3/issue/'' @ fstr ascii_lib (JStr ''PROJ-7'')) =
            ''https://tracker.example/rest/api/3/issue/PROJ-7''"
    and u3: "urljoin ascii_lib (base_url example_config)
               (''/rest/api/3/issue/'' @ fstr ascii_lib (JStr ''PROJ-7'') @ ''/comment'') =
            ''https://tracker.example/rest/api/3/issue/PROJ-7/comment''"
    by (simp_all add: ascii_lib_def example_config_def)
  note T = rich_text_wrapper [OF s c, of ?args "JStr ''PROJ''" "JStr ''Bug''" "JStr ''Crash''"
      "JStr ''Steps to reproduce''" ascii_lib "always JNull" "[]" "JStr ''PROJ-7''"
      "JStr ''Looks good''"]
  have A: "\<exists>fs. snd (handle_call_tool ascii_lib (always JNull) example_client
                 ''jira_create_issue'' ?args []) =
               [\<lparr>rq_method = ''POST'',
                 rq_url = ''https://tracker.example/rest/api/3/issue'',
                 rq_params = None,
                 rq_json = Some (JObj [(''fields'', JObj fs)])\<rparr>]
           \<and> map_of fs ''description'' = Some (rich_text_document (JStr ''Steps to reproduce''))"
    using T [THEN conjunct1, THEN mp, OF conjI [OF p1 conjI [OF p2 conjI [OF p3 p4]]]]
    unfolding u1 append_Nil .
  have B: "\<exists>fs. snd (handle_call_tool ascii_lib (always JNull) example_client
                 ''jira_update_issue'' ?args []) =
               [\<lparr>rq_method = ''PUT'',
                 rq_url = ''https://tracker.example/rest/api/3/issue/PROJ-7'',
                 rq_params = None,
                 rq_json = Some (JObj [(''fields'', JObj fs)])\<rparr>]
           \<and> map_of fs ''description'' = Some (rich_text_document (JStr ''Steps to reproduce''))"
    using T [THEN conjunct2, THEN conjunct1, THEN mp, OF conjI [OF p5 p4]]
    unfolding u2 append_Nil .
  have C: "snd (handle_call_tool ascii_lib (always JNull) example_client
                 ''jira_add_comment'' ?args []) =
               [\<lparr>rq_method = ''POST'',
                 rq_url = ''https://tracker.example/rest/api/3/issue/PROJ-7/comment'',
                 rq_params = None,
                 rq_json = Some (JObj [(''body'', rich_text_document (JStr ''Looks good''))])\<rparr>]"
    using T [THEN conjunct2, THEN conjunct2, THEN mp, OF conjI [OF p5 p6]]
    unfolding u3 append_Nil .
  have "session example_client \<noteq> None"
    using s by simp
  then show ?thesis
    using c A B C by (intro conjI)
qed

section \<open>Error containment\<close>

lemma run_branch_text:
  "run_branch b lib net jira_client arguments log = (Inr r, log') \<Longrightarrow>
   \<exists>t. r = [TextContent ''text'' t]"
  by (cases b) (auto split: sum.splits prod.splits if_splits)

lemma try_block_text:
  "try_block lib net jira_client name arguments log = (Inr r, log') \<Longrightarrow>
   \<exists>t. r = [TextContent ''text'' t]"
  by (auto simp: try_block_def split: option.splits dest: run_branch_text)

text \<open>
  Claim C2. For every tool name, argument mapping, client state and behaviour of the
  tracker, \<^verbatim>\<open>handle_call_tool\<close> returns a list of one text result. When the body of its
  \<^verbatim>\<open>try\<close> block raises an exception \<open>e\<close>, whether from the transport, from the request
  primitive or from a missing or ill-typed argument, that text is \<^verbatim>\<open>Error: \<close> followed by
  \<^verbatim>\<open>str(e)\<close>; otherwise the result of the body is returned as it is.
\<close>

theorem no_exception_escapes:
  "(\<exists>t. fst (handle_call_tool lib net jira_client name arguments log) = [TextContent ''text'' t])
   \<and> (\<forall>e log'. try_block lib net jira_client name arguments log = (Inl e, log') \<longrightarrow>
         handle_call_tool lib net jira_client name arguments log =
           ([TextContent ''text'' (''Error: '' @ str_exc lib e)], log'))
   \<and> (\<forall>r log'. try_block lib net jira_client name arguments log = (Inr r, log') \<longrightarrow>
         handle_call_tool lib net jira_client name arguments log = (r, log'))"
proof -
  obtain res log' where tb: "try_block lib net jira_client name arguments log = (res, log')"
    by (cases "try_block lib net jira_client name arguments log")
  show ?thesis
  proof (cases res)
    case (Inl e)
    with tb show ?thesis by (simp add: handle_call_tool_def)
  next
    case (Inr r)
    with tb try_block_text [of lib net jira_client name arguments log r log']
    show ?thesis by (auto simp: handle_call_tool_def)
  qed
qed

theorem no_exception_escapes_witness:
  "handle_call_tool ascii_lib unreachable example_client ''jira_get_issue''
      [(''issue_key'', JStr ''PROJ-7'')] [] =
     ([TextContent ''text'' ''Error: Cannot connect to host''],
      [\<lparr>rq_method = ''GET'', rq_url = ''https://tracker.example/rest/api/3/issue/PROJ-7'',
        rq_params = None, rq_json = None\<rparr>])
   \<and> handle_call_tool ascii_lib unreachable example_client ''jira_get_issue'' [] [] =
     ([TextContent ''text'' (''Error: '' @ quoted ''issue_key'')], [])
   \<and> handle_call_tool ascii_lib (always JNull) init ''jira_get_projects'' [] [] =
     ([TextContent ''text'' ''Error: JIRA client not initialized''], [])"
proof -
  have 1: "try_block ascii_lib unreachable example_client ''jira_get_issue''
      [(''issue_key'', JStr ''PROJ-7'')] [] =
     (Inl (OtherError ''Cannot connect to host''),
      [\<lparr>rq_method = ''GET'', rq_url = ''https://tracker.example/rest/api/3/issue/PROJ-7'',
        rq_params = None, rq_json = None\<rparr>])"
    by (simp add: try_block_def dispatch_def getitem_def get_issue_def make_request_def
        example_client_def example_config_def ascii_lib_def unreachable_def)
  have 2: "try_block ascii_lib unreachable example_client ''jira_get_issue'' [] [] =
     (Inl (KeyError ''issue_key''), [])"
    by (simp add: try_block_def dispatch_def getitem_def)
  have 3: "try_block ascii_lib (always JNull) init ''jira_get_projects'' [] [] =
     (Inl (ValueError ''JIRA client not initialized''), [])"
    by (simp add: try_block_def dispatch_def get_projects_def make_request_def init_def)
  have e1: "''Error: '' @ str_exc ascii_lib (OtherError ''Cannot connect to host'') =
            ''Error: Cannot connect to host''"
    and e2: "''Error: '' @ str_exc ascii_lib (KeyError ''issue_key'') =
            ''Error: '' @ quoted ''issue_key''"
    and e3: "''Error: '' @ str_exc ascii_lib (ValueError ''JIRA client not initialized'') =
            ''Error: JIRA client not initialized''"
    by (simp_all add: ascii_lib_def)
  show ?thesis
    using no_exception_escapes [THEN conjunct2, THEN conjunct1, THEN spec, THEN spec, THEN mp, OF 1]
      no_exception_escapes [THEN conjunct2, THEN conjunct1, THEN spec, THEN spec, THEN mp, OF 2]
      no_exception_escapes [THEN conjunct2, THEN conjunct1, THEN spec, THEN spec, THEN mp, OF 3]
    unfolding e1 e2 e3 by (intro conjI)
qed

section \<open>Transition by name\<close>

lemma subscript_transition_json:
  "subscript (transition_json t) ''name'' = Inr (JStr (snd t))"
  "subscript (transition_json t) ''id'' = Inr (JStr (fst t))"
  by (simp_all add: transition_json_def getitem_def)

lemma find_transition_typed:
  assumes "map_of arguments ''transition_name'' = Some (JStr r)"
  shows "find_transition lib arguments (map transition_json ts) =
     Inr (case find (\<lambda>t. str_lower lib (snd t) = str_lower lib r) ts of
            None \<Rightarrow> JNull
          | Some t \<Rightarrow> JStr (fst t))"
  by (induction ts) (simp_all add: subscript_transition_json getitem_def assms)

lemma available_names_typed:
  "available_names (map transition_json ts) = Inr (map (\<lambda>t. JStr (snd t)) ts)"
  by (induction ts) (simp_all add: subscript_transition_json)

text \<open>
  The transition branch on a well-formed list of transitions: the first transition whose
  lower-cased name equals the lower-cased requested name is taken. When its identifier is
  not empty it is posted in one request; when there is no such transition, or when its
  identifier is empty, the result is the not-found text with the names of all
  transitions, and the only request is the GET.
\<close>

lemma transition_by_name:
  assumes "session jira_client = Some s" and "config jira_client = Some cfg"
    and "map_of arguments ''issue_key'' = Some k"
    and "map_of arguments ''transition_name'' = Some (JStr r)"
    and "net log \<lparr>rq_method = ''GET'',
                   rq_url = urljoin lib (base_url cfg)
                              (''/rest/api/3/issue/'' @ fstr lib k @ ''/transitions''),
                   rq_params = None, rq_json = None\<rparr> = Inr (transitions_response ts)"
  shows "handle_call_tool lib net jira_client ''jira_transition_issue'' arguments log =
     (let get = \<lparr>rq_method = ''GET'',
                  rq_url = urljoin lib (base_url cfg)
                             (''/rest/api/3/issue/'' @ fstr lib k @ ''/transitions''),
                  rq_params = None, rq_json = None\<rparr>;
          not_found =
            ([TextContent ''text''
               (''Transition '' @ quoted r @ '' not found. Available transitions: '' @
                py_repr lib (JArr (map (\<lambda>t. JStr (snd t)) ts)))],
             log @ [get])
      in case find (\<lambda>t. str_lower lib (snd t) = str_lower lib r) ts of
           None \<Rightarrow> not_found
         | Some t \<Rightarrow>
             if fst t = [] then not_found
             else
               (let post = \<lparr>rq_method = ''POST'',
                             rq_url = urljoin lib (base_url cfg)
                                        (''/rest/api/3/issue/'' @ fstr lib k @ ''/transitions''),
                             rq_params = None,
                             rq_json = Some (JObj [(''transition'',
                                                    JObj [(''id'', JStr (fst t))])])\<rparr>
                in (case net (log @ [get]) post of
                      Inl e \<Rightarrow> [TextContent ''text'' (''Error: '' @ str_exc lib e)]
                    | Inr body \<Rightarrow>
                        [TextContent ''text''
                           (''Issue '' @ fstr lib k @ '' transitioned to '' @ r)],
                    log @ [get, post])))"
  using assms
  by (simp add: handle_call_tool_def try_block_def dispatch_def getitem_def
      get_issue_transitions_def transition_issue_def make_request_initialized
      transitions_response_def find_transition_typed available_names_typed Let_def
      split: option.splits sum.splits)

lemma example_transitions_request:
  "session example_client =
      Some \<lparr>headers = [(''Authorization'', ''Basic dXNlcjp0b2tlbg==''),
                       (''Content-Type'', ''application/json''),
                       (''Accept'', ''application/json'')],
            timeout_total = 30\<rparr>"
  "config example_client = Some example_config"
  "urljoin ascii_lib (base_url example_config)
     (''/rest/api/3/issue/'' @ fstr ascii_lib (JStr ''PROJ-7'') @ ''/transitions'') =
   ''https://tracker.example/rest/api/3/issue/PROJ-7/transitions''"
  by (simp_all add: example_client_def ascii_lib_def example_config_def)

text \<open>The two examples of the specification: a name in another case resolves to the
  identifier of its transition, a name without a match is reported with all names.\<close>

lemma transition_example_resolves:
  "handle_call_tool ascii_lib
     (always (transitions_response [(''11'', ''In Progress''), (''21'', ''Done'')]))
     example_client ''jira_transition_issue''
     [(''issue_key'', JStr ''PROJ-7''), (''transition_name'', JStr ''in progress'')] [] =
   ([TextContent ''text'' ''Issue PROJ-7 transitioned to in progress''],
    [\<lparr>rq_method = ''GET'',
      rq_url = ''https://tracker.example/rest/api/3/issue/PROJ-7/transitions'',
      rq_params = None, rq_json = None\<rparr>,
     \<lparr>rq_method = ''POST'',
      rq_url = ''https://tracker.example/rest/api/3/issue/PROJ-7/transitions'',
      rq_params = None,
      rq_json = Some (JObj [(''transition'', JObj [(''id'', JStr ''11'')])])\<rparr>])"
  by (subst transition_by_name [where s = "the (session example_client)"
        and cfg = example_config and k = "JStr ''PROJ-7''" and r = "''in progress''"
        and ts = "[(''11'', ''In Progress''), (''21'', ''Done'')]"])
     (simp_all add: example_transitions_request always_def ascii_lib_def ascii_lower_def
        example_config_def)

lemma transition_example_no_match:
  "handle_call_tool ascii_lib
     (always (transitions_response [(''11'', ''In Progress''), (''21'', ''Done'')]))
     example_client ''jira_transition_issue''
     [(''issue_key'', JStr ''PROJ-7''), (''transition_name'', JStr ''Closed'')] [] =
   ([TextContent ''text''
       (''Transition '' @ quoted ''Closed'' @ '' not found. Available transitions: ['' @
        quoted ''In Progress'' @ '', '' @ quoted ''Done'' @ '']'')],
    [\<lparr>rq_method = ''GET'',
      rq_url = ''https://tracker.example/rest/api/3/issue/PROJ-7/transitions'',
      rq_params = None, rq_json = None\<rparr>])"
  by (subst transition_by_name [where s = "the (session example_client)"
        and cfg = example_config and k = "JStr ''PROJ-7''" and r = "''Closed''"
        and ts = "[(''11'', ''In Progress''), (''21'', ''Done'')]"])
     (simp_all add: example_transitions_request always_def ascii_lib_def ascii_lower_def
        example_config_def quoted_def)

text \<open>
  The guard \<^verbatim>\<open>if not transition_id\<close> tests truth, so an empty identifier is handled like
  no match. A tracker that reported the transition \<^verbatim>\<open>{"id": "", "name": "Done"}\<close> would get
  the not-found text for the request \<^verbatim>\<open>done\<close> and no POST. Identifiers of transitions are
  not empty, so the property below assumes it.
\<close>

lemma transition_empty_id:
  "handle_call_tool ascii_lib
     (always (JObj [(''transitions'', JArr [JObj [(''id'', JStr []), (''name'', JStr ''Done'')]])]))
     example_client ''jira_transition_issue''
     [(''issue_key'', JStr ''PROJ-7''), (''transition_name'', JStr ''done'')] [] =
   ([TextContent ''text''
       (''Transition '' @ quoted ''done'' @ '' not found. Available transitions: ['' @
        quoted ''Done'' @ '']'')],
    [\<lparr>rq_method = ''GET'',
      rq_url = ''https://tracker.example/rest/api/3/issue/PROJ-7/transitions'',
      rq_params = None, rq_json = None\<rparr>])"
  by (simp add: handle_call_tool_def try_block_def dispatch_def getitem_def
      get_issue_transitions_def make_request_def example_client_def example_config_def
      always_def ascii_lib_def ascii_lower_def quoted_def)



section \<open>Reading the JSON text of a value back\<close>

lemma digit_nth:
  assumes "k < 10"
  shows "is_digit (''0123456789'' ! k)" and "digit_value (''0123456789'' ! k) = k"
proof -
  from assms have "k \<in> {0, 1, 2, 3, 4, 5, 6, 7, 8, 9}"
    by auto
  then show "is_digit (''0123456789'' ! k)" and "digit_value (''0123456789'' ! k) = k"
    by (auto simp: is_digit_def digit_value_def)
qed

lemma decimal_digits: "\<forall>c \<in> set (decimal n). is_digit c"
proof (induction n rule: decimal.induct)
  case (1 n)
  show ?case
  proof (cases "n < 10")
    case True
    then show ?thesis
      by (subst decimal.simps) (simp add: digit_nth)
  next
    case False
    with 1 show ?thesis
      by (subst decimal.simps) (simp add: digit_nth)
  qed
qed

lemma decimal_not_Nil: "decimal n \<noteq> []"
  by (subst decimal.simps) simp







lemma skip_ws_newline_indent [simp]: "skip_ws (newline_indent k @ s) = skip_ws s"
proof -
  have "dropWhile is_ws (replicate m CHR '' '' @ s) = dropWhile is_ws s" for m
    by (induction m) (simp_all add: is_ws_def)
  then show ?thesis
    by (simp add: skip_ws_def newline_indent_def is_ws_def)
qed

lemma skip_ws_starts: "starts_value s \<Longrightarrow> skip_ws s = s"
  by (cases s) (simp_all add: starts_value_def skip_ws_def)


lemma parse_value_ws [simp]: "parse_value n (newline_indent k @ s) = parse_value n s"
  by (cases n) simp_all

lemma parse_elements_ws [simp]: "parse_elements n (newline_indent k @ s) = parse_elements n s"
  by (cases n) simp_all

lemma parse_members_ws [simp]: "parse_members n (newline_indent k @ s) = parse_members n s"
  by (cases n) simp_all

lemma parse_value_space [simp]: "parse_value n (CHR '' '' # s) = parse_value n s"
  by (cases n) (simp_all add: skip_ws_def is_ws_def)

lemma ends_number_simps [simp]:
  "ends_number []"
  "ends_number (CHR '','' # s)"
  "ends_number (newline_indent k @ s)"
  by (simp_all add: ends_number_def is_digit_def newline_indent_def)

lemma decimal_hd: "\<exists>c cs. decimal n = c # cs \<and> is_digit c"
  using decimal_not_Nil [of n] decimal_digits [of n] by (cases "decimal n") auto


lemma starts_value_dumps: "starts_value (ascii_dumps l v @ rest)"
proof (cases v)
  case (JInt i)
  obtain c cs where "decimal (nat (- i)) = c # cs" "is_digit c"
    using decimal_hd by blast
  moreover obtain c' cs' where "decimal (nat i) = c' # cs'" "is_digit c'"
    using decimal_hd by blast
  ultimately show ?thesis
    using JInt by (auto simp: starts_value_def int_decimal_def is_ws_def is_digit_def)
qed (simp_all add: starts_value_def is_ws_def json_string_def)












lemma ascii_dumps_not_Nil: "ascii_dumps l v \<noteq> []"
  using starts_value_dumps [of l v "[]"] by (simp add: starts_value_def)



section \<open>Search results\<close>




end
